theory Spec2Isabelle
  imports Complex_Main "HOL-Library.Multiset"
begin

section \<open>The DQN recommendation agent (components/agents/dqn_agent.py)\<close>

text \<open>
  The agent's floats are modelled as reals: NaN, infinities and rounding are outside
  the model of the agent. State vectors and candidate embeddings (\<open>List[float]\<close>) are \<open>real list\<close>. A candidate
  group (\<open>Dict[str, List[List[float]]]\<close>) is an association list in the dictionary's
  insertion order, which is the order \<open>items()\<close> and \<open>values()\<close> iterate in.
\<close>

type_synonym vec = "real list"
type_synonym cand_group = "(string \<times> vec list) list"

text \<open>
  The five columns \<open>ReplayBuffer.sample\<close> returns, as \<open>learn\<close> unpacks them:
  \<open>user_states, content_embs, rewards, (next_states, next_cands_embs), dones\<close>.
\<close>

type_synonym batch =
  "vec list \<times> vec list \<times> real list \<times> (vec list \<times> cand_group list) \<times> bool list"

text \<open>
  The exceptions of the modelled code. \<open>ValueError\<close> carries its message;
  \<open>TorchError\<close> is an exception raised inside a tensor operation (shapes that do not
  broadcast, an estimator fed columns of different lengths, \<open>argmax\<close> of nothing);
  \<open>SampleError\<close> is the replay buffer refusing to sample.
\<close>

datatype error = ValueError string | ZeroDivisionError | TorchError | SampleError
  | TypeError | KeyError string | OverflowError

text \<open>The attributes of \<open>DQNAgent\<close>; \<open>'p\<close> is a network's parameters (its
  \<open>state_dict\<close>), \<open>'o\<close> the optimizer's state, \<open>'b\<close> the replay buffer.\<close>

record ('p, 'o, 'b) agent =
  q_net :: 'p
  target_q_net :: 'p
  optimizer :: 'o
  buffer :: 'b
  gamma :: real
  batch_size :: int
  epsilon :: real
  epsilon_min :: real
  epsilon_dec :: real
  update_freq :: int
  step_count :: int
  loss_type :: string

text \<open>
  The collaborators whose code is not part of the agent, taken as parameters:
  the Q network's forward pass on one (state, candidate) pair, the replay buffer's
  \<open>len\<close> and \<open>sample\<close>, the two torch losses, one optimizer update (gradient of the
  given loss function at the current parameters, then \<open>optimizer.step()\<close>), and the
  module-level generator of \<open>random\<close>, whose state \<open>'r\<close> is threaded through every
  call that draws from it.
\<close>

record ('p, 'o, 'b, 'r) collab =
  q_value :: "'p \<Rightarrow> vec \<Rightarrow> vec \<Rightarrow> real"
  buffer_len :: "'b \<Rightarrow> int"
  buffer_sample :: "'b \<Rightarrow> int \<Rightarrow> 'r \<Rightarrow> batch option \<times> 'r"
  mse_loss :: "real list \<Rightarrow> real list \<Rightarrow> real"
  smooth_l1_loss :: "real list \<Rightarrow> real list \<Rightarrow> real"
  optimizer_step :: "('p \<Rightarrow> real) \<Rightarrow> 'p \<Rightarrow> 'o \<Rightarrow> 'p \<times> 'o"
  random_random :: "'r \<Rightarrow> real \<times> 'r"
  random_randrange :: "nat \<Rightarrow> 'r \<Rightarrow> nat \<times> 'r"
  random_sample :: "(string \<times> nat) list \<Rightarrow> nat \<Rightarrow> 'r \<Rightarrow> (string \<times> nat) list \<times> 'r"

subsection \<open>decay_epsilon\<close>

definition decay_epsilon :: "('p, 'o, 'b) agent \<Rightarrow> ('p, 'o, 'b) agent" where
  "decay_epsilon s = s\<lparr>epsilon := max (epsilon s * epsilon_dec s) (epsilon_min s)\<rparr>"

text \<open>\<open>n\<close> calls of \<open>decay_epsilon\<close> in a row.\<close>

fun decay_calls :: "nat \<Rightarrow> ('p, 'o, 'b) agent \<Rightarrow> ('p, 'o, 'b) agent" where
  "decay_calls 0 s = s"
| "decay_calls (Suc n) s = decay_epsilon (decay_calls n s)"

subsection \<open>The batched target computation of learn\<close>

text \<open>\<open>list(chain.from_iterable(nxt.values()))\<close>: every candidate of every type.\<close>

definition all_embs :: "cand_group \<Rightarrow> vec list" where
  "all_embs nxt = concat (map snd nxt)"

text \<open>
  The loop over \<open>enumerate(zip(next_states, next_cands_embs))\<close>. The three lists
  \<open>flat_states\<close>, \<open>flat_cands\<close> and \<open>batch_indices\<close> are appended to together, so they
  are one list of triples here and its three projections below.
\<close>

fun flatten_from :: "nat \<Rightarrow> (vec \<times> cand_group) list \<Rightarrow> (vec \<times> vec \<times> nat) list" where
  "flatten_from i [] = []"
| "flatten_from i ((ns, nxt) # rest) =
     map (\<lambda>cand. (ns, cand, i)) (all_embs nxt) @ flatten_from (Suc i) rest"

text \<open>One batched call of a Q network: one value per row, in input order.\<close>

definition q_batch :: "('p, 'o, 'b, 'r) collab \<Rightarrow> 'p \<Rightarrow> vec list \<Rightarrow> vec list \<Rightarrow> real list" where
  "q_batch env p states cands = map (\<lambda>(st, c). q_value env p st c) (zip states cands)"

text \<open>\<open>q_flat[batch_indices == i]\<close>: the values whose carried record index is \<open>i\<close>.\<close>

definition segment :: "nat list \<Rightarrow> real list \<Rightarrow> nat \<Rightarrow> real list" where
  "segment batch_indices q_flat i =
     map snd (filter (\<lambda>(j, q). j = i) (zip batch_indices q_flat))"

text \<open>\<open>ndarray.max()\<close>, called on non-empty arrays only.\<close>

definition np_max :: "real list \<Rightarrow> real" where
  "np_max xs = fold max (tl xs) (hd xs)"

definition max_next_q ::
  "('p, 'o, 'b, 'r) collab \<Rightarrow> 'p \<Rightarrow> vec list \<Rightarrow> cand_group list \<Rightarrow> real list" where
  "max_next_q env tp next_states next_cands_embs =
     (let flat = flatten_from 0 (zip next_states next_cands_embs);
          flat_states = map fst flat;
          flat_cands = map (\<lambda>t. fst (snd t)) flat;
          batch_indices = map (\<lambda>t. snd (snd t)) flat
      in if flat_states \<noteq> [] then
           let q_flat = q_batch env tp flat_states flat_cands
           in map (\<lambda>i. let sample_qs = segment batch_indices q_flat i
                       in if length sample_qs > 0 then np_max sample_qs else 0)
                  [0..<length next_states]
         else replicate (length next_states) 0)"

text \<open>
  An elementwise operation on two tensors of shapes \<open>(n, 1)\<close> and \<open>(m, 1)\<close>: torch
  broadcasts a dimension of size 1 and raises when the sizes differ otherwise.
\<close>

definition broadcast2 ::
  "(real \<Rightarrow> real \<Rightarrow> real) \<Rightarrow> real list \<Rightarrow> real list \<Rightarrow> error + real list" where
  "broadcast2 f xs ys =
     (if length xs = length ys then Inr (map (\<lambda>(x, y). f x y) (zip xs ys))
      else if length xs = 1 then Inr (map (f (hd xs)) ys)
      else if length ys = 1 then Inr (map (\<lambda>x. f x (hd ys)) xs)
      else Inl TorchError)"

text \<open>\<open>target = rs + self.gamma * max_nq * (1 - ds)\<close>, \<open>ds\<close> the dones as 0.0/1.0.\<close>

definition compute_target ::
  "('p, 'o, 'b, 'r) collab \<Rightarrow> 'p \<Rightarrow> real \<Rightarrow> real list \<Rightarrow> vec list \<Rightarrow> cand_group list
     \<Rightarrow> bool list \<Rightarrow> error + real list" where
  "compute_target env tp g rewards next_states next_cands_embs dones =
     (let rs = rewards;
          ds = map (\<lambda>d. if d then 1 else 0) dones;
          max_nq = max_next_q env tp next_states next_cands_embs
      in case broadcast2 (*) (map (\<lambda>q. g * q) max_nq) (map (\<lambda>d. 1 - d) ds) of
           Inl e \<Rightarrow> Inl e
         | Inr boot \<Rightarrow> broadcast2 (+) rs boot)"

subsection \<open>learn\<close>

text \<open>\<open>self.q_net(us, ce)\<close> on the sampled columns; the network needs one candidate per
  state.\<close>

definition q_forward ::
  "('p, 'o, 'b, 'r) collab \<Rightarrow> 'p \<Rightarrow> vec list \<Rightarrow> vec list \<Rightarrow> error + real list" where
  "q_forward env p us ce =
     (if length us = length ce then Inr (q_batch env p us ce) else Inl TorchError)"

text \<open>The \<open>if\<close>/\<open>elif\<close>/\<open>else\<close> on \<open>self.loss_type\<close>; \<open>None\<close> is the \<open>else\<close> branch.\<close>

definition select_loss ::
  "('p, 'o, 'b, 'r) collab \<Rightarrow> string \<Rightarrow> (real list \<Rightarrow> real list \<Rightarrow> real) option" where
  "select_loss env lt =
     (if lt = ''mse'' then Some (mse_loss env)
      else if lt = ''smooth_l1'' then Some (smooth_l1_loss env)
      else None)"

text \<open>
  \<open>learn\<close> returns the exception or the returned value (\<open>None\<close> or the loss), together
  with the agent and the generator as the call leaves them, also when it raises.
  The message of the \<open>ValueError\<close> is abbreviated to the rejected \<open>loss_type\<close>.
\<close>

definition learn ::
  "('p, 'o, 'b, 'r) collab \<Rightarrow> ('p, 'o, 'b) agent \<Rightarrow> 'r
     \<Rightarrow> (error + real option) \<times> ('p, 'o, 'b) agent \<times> 'r" where
  "learn env s r =
     (if buffer_len env (buffer s) < batch_size s then (Inr None, s, r)
      else
        let s1 = s\<lparr>step_count := step_count s + 1\<rparr> in
        case buffer_sample env (buffer s1) (batch_size s1) r of
          (None, r1) \<Rightarrow> (Inl SampleError, s1, r1)
        | (Some (user_states, content_embs, rewards, (next_states, next_cands_embs), dones), r1) \<Rightarrow>
            (case q_forward env (q_net s1) user_states content_embs of
               Inl e \<Rightarrow> (Inl e, s1, r1)
             | Inr q_sa \<Rightarrow>
                 (case compute_target env (target_q_net s1) (gamma s1) rewards
                         next_states next_cands_embs dones of
                    Inl e \<Rightarrow> (Inl e, s1, r1)
                  | Inr target \<Rightarrow>
                      (case select_loss env (loss_type s1) of
                         None \<Rightarrow> (Inl (ValueError (loss_type s1)), s1, r1)
                       | Some loss_fn \<Rightarrow>
                           let loss = loss_fn q_sa target;
                               (p', o') = optimizer_step env
                                  (\<lambda>p. loss_fn (q_batch env p user_states content_embs) target)
                                  (q_net s1) (optimizer s1);
                               s2 = s1\<lparr>q_net := p', optimizer := o'\<rparr>
                           in if update_freq s2 = 0 then (Inl ZeroDivisionError, s2, r1)
                              else if step_count s2 mod update_freq s2 = 0
                              then (Inr (Some loss), s2\<lparr>target_q_net := q_net s2\<rparr>, r1)
                              else (Inr (Some loss), s2, r1)))))"

subsection \<open>__init__\<close>

text \<open>
  The constructor takes the freshly initialised live network, optimizer and buffer
  from the collaborators; the target network is loaded from the live one. No argument
  is validated.
\<close>

definition init ::
  "'p \<Rightarrow> 'o \<Rightarrow> 'b \<Rightarrow> int \<Rightarrow> real \<Rightarrow> real \<Rightarrow> real \<Rightarrow> real \<Rightarrow> int \<Rightarrow> string
     \<Rightarrow> ('p, 'o, 'b) agent" where
  "init new_net new_optimizer new_buffer batch_size' eps_start eps_min eps_decay gamma'
        update_freq' loss_type' =
     \<lparr>q_net = new_net, target_q_net = new_net, optimizer = new_optimizer,
      buffer = new_buffer, gamma = gamma', batch_size = batch_size',
      epsilon = eps_start, epsilon_min = eps_min, epsilon_dec = eps_decay,
      update_freq = update_freq', step_count = 0, loss_type = loss_type'\<rparr>"

subsection \<open>select_action\<close>

text \<open>\<open>torch.argmax\<close> of a non-empty vector: the index of the first maximal value.\<close>

fun argmax_from :: "nat \<Rightarrow> real \<Rightarrow> nat \<Rightarrow> real list \<Rightarrow> nat" where
  "argmax_from best_i best i [] = best_i"
| "argmax_from best_i best i (q # qs) =
     (if best < q then argmax_from i q (Suc i) qs else argmax_from best_i best (Suc i) qs)"

definition argmax :: "real list \<Rightarrow> nat" where
  "argmax qs = argmax_from 0 (hd qs) 1 (tl qs)"

text \<open>
  With no candidate, \<open>random.randrange(0)\<close> raises \<open>ValueError\<close> and the tensor path
  raises inside torch.
\<close>

definition select_action ::
  "('p, 'o, 'b, 'r) collab \<Rightarrow> ('p, 'o, 'b) agent \<Rightarrow> vec \<Rightarrow> vec list \<Rightarrow> 'r
     \<Rightarrow> (error + nat) \<times> 'r" where
  "select_action env s user_state candidate_embs r =
     (let (u, r1) = random_random env r in
      if u < epsilon s then
        (if candidate_embs = [] then (Inl (ValueError ''empty range''), r1)
         else let (i, r2) = random_randrange env (length candidate_embs) r1 in (Inr i, r2))
      else
        (if candidate_embs = [] then (Inl TorchError, r1)
         else
           let us_rep = replicate (length candidate_embs) user_state;
               q_vals = q_batch env (q_net s) us_rep candidate_embs
           in (Inr (argmax q_vals), r1)))"

subsection \<open>select_slate\<close>

text \<open>\<open>xs[:k]\<close>: a negative \<open>k\<close> counts from the end.\<close>

definition py_prefix :: "int \<Rightarrow> 'a list \<Rightarrow> 'a list" where
  "py_prefix k xs = (if 0 \<le> k then take (nat k) xs else take (nat (int (length xs) + k)) xs)"

text \<open>
  \<open>list.sort(key=lambda x: x[1], reverse=True)\<close>: descending by value, and stable
  (entries of equal value keep their order, also under \<open>reverse=True\<close>).
\<close>

definition sort_desc :: "('a \<times> real) list \<Rightarrow> ('a \<times> real) list" where
  "sort_desc xs = sort_key (\<lambda>x. - snd x) xs"

definition all_candidates :: "cand_group \<Rightarrow> (string \<times> nat) list" where
  "all_candidates candidate_embs =
     concat (map (\<lambda>(ctype, embs). map (\<lambda>idx. (ctype, idx)) [0..<length embs]) candidate_embs)"

definition q_values_with_pos ::
  "('p, 'o, 'b, 'r) collab \<Rightarrow> 'p \<Rightarrow> vec \<Rightarrow> cand_group \<Rightarrow> ((string \<times> nat) \<times> real) list" where
  "q_values_with_pos env p state candidate_embs =
     concat (map (\<lambda>(ctype, embs).
        if embs = [] then []
        else
          let state_rep = replicate (length embs) state;
              q_vals = q_batch env p state_rep embs
          in map (\<lambda>(i, q_val). ((ctype, i), q_val)) (enumerate 0 q_vals)) candidate_embs)"

text \<open>\<open>random.sample\<close> raises \<open>ValueError\<close> on a negative sample size.\<close>

definition select_slate ::
  "('p, 'o, 'b, 'r) collab \<Rightarrow> ('p, 'o, 'b) agent \<Rightarrow> vec \<Rightarrow> cand_group \<Rightarrow> int \<Rightarrow> 'r
     \<Rightarrow> (error + (string \<times> nat) list) \<times> 'r" where
  "select_slate env s state candidate_embs max_recs r =
     (let cands = all_candidates candidate_embs in
      if cands = [] then (Inr [], r)
      else
        let (u, r1) = random_random env r in
        if u < epsilon s then
          (let sample_count = min max_recs (int (length cands)) in
           if sample_count < 0 then (Inl (ValueError ''negative sample''), r1)
           else let (picked, r2) = random_sample env cands (nat sample_count) r1
                in (Inr picked, r2))
        else
          (let scored = sort_desc (q_values_with_pos env (q_net s) state candidate_embs)
           in (Inr (map fst (py_prefix max_recs scored)), r1)))"

subsection \<open>save and load\<close>

text \<open>
  The checkpoint dictionary; a field is \<open>None\<close> when the key is absent. The keys
  \<open>step_count\<close>, \<open>epsilon\<close>, \<open>epsilon_min\<close> and \<open>epsilon_dec\<close> are prefixed here, the agent's
  attributes having these names.
\<close>

record ('p, 'o) checkpoint =
  q_net_state :: "'p option"
  target_net_state :: "'p option"
  optimizer_state :: "'o option"
  ckpt_step_count :: "int option"
  ckpt_epsilon :: "real option"
  ckpt_epsilon_min :: "real option"
  ckpt_epsilon_dec :: "real option"

definition save :: "('p, 'o, 'b) agent \<Rightarrow> ('p, 'o) checkpoint" where
  "save s =
     \<lparr>q_net_state = Some (q_net s), target_net_state = Some (target_q_net s),
      optimizer_state = Some (optimizer s), ckpt_step_count = Some (step_count s),
      ckpt_epsilon = Some (epsilon s), ckpt_epsilon_min = Some (epsilon_min s),
      ckpt_epsilon_dec = Some (epsilon_dec s)\<rparr>"

text \<open>\<open>checkpoint.get(key, default)\<close>.\<close>

definition get_or :: "'a option \<Rightarrow> 'a \<Rightarrow> 'a" where
  "get_or field fallback = (case field of None \<Rightarrow> fallback | Some v \<Rightarrow> v)"

text \<open>
  \<open>load\<close> on the deserialised checkpoint: the raised exception if any, and the agent as
  the call leaves it. \<open>checkpoint["q_net_state"]\<close> and the two lookups after it raise
  \<open>KeyError\<close> on an absent key.
\<close>

definition load ::
  "('p, 'o, 'b) agent \<Rightarrow> ('p, 'o) checkpoint \<Rightarrow> error option \<times> ('p, 'o, 'b) agent" where
  "load s checkpoint =
     (case q_net_state checkpoint of
        None \<Rightarrow> (Some (KeyError ''q_net_state''), s)
      | Some qp \<Rightarrow>
          let s1 = s\<lparr>q_net := qp\<rparr> in
          (case target_net_state checkpoint of
             None \<Rightarrow> (Some (KeyError ''target_net_state''), s1)
           | Some tp \<Rightarrow>
               let s2 = s1\<lparr>target_q_net := tp\<rparr> in
               (case optimizer_state checkpoint of
                  None \<Rightarrow> (Some (KeyError ''optimizer_state''), s2)
                | Some os \<Rightarrow>
                    (None,
                     s2\<lparr>optimizer := os,
                        step_count := get_or (ckpt_step_count checkpoint) 0,
                        epsilon := get_or (ckpt_epsilon checkpoint) (epsilon s2),
                        epsilon_min := get_or (ckpt_epsilon_min checkpoint) (epsilon_min s2),
                        epsilon_dec := get_or (ckpt_epsilon_dec checkpoint) (epsilon_dec s2)\<rparr>))))"

section \<open>The response handler (components/simulation/llm_response_handler.py)\<close>

text \<open>
  The values \<open>json.loads\<close> produces. A float is finite or one of the three values
  \<open>json.loads\<close> reads from \<open>Infinity\<close>, \<open>-Infinity\<close>, \<open>NaN\<close> or an overflowing literal.
  A dictionary is an association list with one entry per key.
\<close>

datatype pyfloat = Finite real | PosInf | NegInf | NaN

datatype pyval = PNone | PBool bool | PInt int | PFloat pyfloat | PStr string
  | PList "pyval list" | PDict "(string \<times> pyval) list"

text \<open>\<open>d.get(key)\<close> and \<open>d.get(key, default)\<close>.\<close>

definition dict_get :: "(string \<times> pyval) list \<Rightarrow> string \<Rightarrow> pyval \<Rightarrow> pyval" where
  "dict_get d key fallback = (case map_of d key of None \<Rightarrow> fallback | Some v \<Rightarrow> v)"

text \<open>
  The built-in \<open>int(x)\<close>: \<open>TypeError\<close> on \<open>None\<close>, a list or a dictionary, truncation
  toward zero on a finite float, \<open>OverflowError\<close> on an infinity, \<open>ValueError\<close> on NaN,
  and on a string the built-in parser, a parameter here (\<open>None\<close> where it raises
  \<open>ValueError\<close>).
\<close>

definition py_trunc :: "real \<Rightarrow> int" where
  "py_trunc x = (if 0 \<le> x then \<lfloor>x\<rfloor> else \<lceil>x\<rceil>)"

fun py_int :: "(string \<Rightarrow> int option) \<Rightarrow> pyval \<Rightarrow> error + int" where
  "py_int parse PNone = Inl TypeError"
| "py_int parse (PBool b) = Inr (if b then 1 else 0)"
| "py_int parse (PInt n) = Inr n"
| "py_int parse (PFloat (Finite x)) = Inr (py_trunc x)"
| "py_int parse (PFloat NaN) = Inl (ValueError ''cannot convert float NaN to integer'')"
| "py_int parse (PFloat PosInf) = Inl OverflowError"
| "py_int parse (PFloat NegInf) = Inl OverflowError"
| "py_int parse (PStr str) =
     (case parse str of None \<Rightarrow> Inl (ValueError ''invalid literal for int()'') | Some n \<Rightarrow> Inr n)"
| "py_int parse (PList xs) = Inl TypeError"
| "py_int parse (PDict d) = Inl TypeError"

text \<open>One entry of the result: \<open>{"content_id": ..., "clicked": ..., "dwell_time": ...}\<close>.\<close>

record response_entry =
  content_id :: pyval
  clicked :: bool
  dwell_time :: int

definition validate_response_count :: "pyval list \<Rightarrow> int \<Rightarrow> error + unit" where
  "validate_response_count responses expected_count =
     (let actual_count = int (length responses) in
      if actual_count \<noteq> expected_count then Inl (ValueError ''Response count mismatch'')
      else Inr ())"

text \<open>
  \<open>isinstance(v, (int, float))\<close> (\<open>bool\<close> is a subclass of \<open>int\<close>), and the comparisons
  \<open>v < 0\<close> and \<open>v > 0\<close> of such a value; both are false on NaN.
\<close>

fun is_number :: "pyval \<Rightarrow> bool" where
  "is_number (PBool b) = True"
| "is_number (PInt n) = True"
| "is_number (PFloat f) = True"
| "is_number v = False"

fun lt_zero :: "pyval \<Rightarrow> bool" where
  "lt_zero (PInt n) = (n < 0)"
| "lt_zero (PFloat (Finite x)) = (x < 0)"
| "lt_zero (PFloat NegInf) = True"
| "lt_zero v = False"

fun gt_zero :: "pyval \<Rightarrow> bool" where
  "gt_zero (PBool b) = b"
| "gt_zero (PInt n) = (0 < n)"
| "gt_zero (PFloat (Finite x)) = (0 < x)"
| "gt_zero (PFloat PosInf) = True"
| "gt_zero v = False"

text \<open>\<open>response.get("dwell_time_seconds", response.get("dwell_time", 0))\<close>.\<close>

definition dwell_value :: "(string \<times> pyval) list \<Rightarrow> pyval" where
  "dwell_value response =
     dict_get response ''dwell_time_seconds'' (dict_get response ''dwell_time'' (PInt 0))"

text \<open>
  \<open>_parse_single_response_for_all\<close>; its last step \<open>int(dwell_time)\<close> raises on a
  dwell time that is still NaN or an infinity.
\<close>

definition parse_single_response_for_all ::
  "(string \<Rightarrow> int option) \<Rightarrow> (string \<times> pyval) list \<Rightarrow> error + bool \<times> int" where
  "parse_single_response_for_all parse response =
     (let clicked0 = dict_get response ''clicked'' (PBool False);
          clicked1 = (case clicked0 of PBool b \<Rightarrow> b | _ \<Rightarrow> False);
          dwell0 = dwell_value response;
          dwell1 = (if is_number dwell0 then (if lt_zero dwell0 then PInt 0 else dwell0)
                    else PInt 0);
          dwell2 = (if clicked1 then dwell1 else if gt_zero dwell1 then PInt 0 else dwell1)
      in case py_int parse dwell2 of
           Inl e \<Rightarrow> Inl e
         | Inr n \<Rightarrow> Inr (clicked1, n))"

text \<open>
  The loop over \<open>enumerate(responses)\<close>. \<open>int(resp.get("content_id"))\<close> is evaluated
  for every dictionary; its result is an \<open>int\<close>, so the test \<open>content_id is not None\<close>
  that follows always holds and the identifier is replaced by the one at position \<open>i\<close>.
\<close>

fun extract_loop ::
  "(string \<Rightarrow> int option) \<Rightarrow> pyval list \<Rightarrow> nat \<Rightarrow> pyval list \<Rightarrow> response_entry list
     \<Rightarrow> error + response_entry list" where
  "extract_loop parse content_ids i [] result = Inr result"
| "extract_loop parse content_ids i (resp # rest) result =
     (case resp of
        PDict d \<Rightarrow>
          (case py_int parse (dict_get d ''content_id'' PNone) of
             Inl e \<Rightarrow> Inl e
           | Inr n \<Rightarrow>
               if i < length content_ids then
                 let cid = content_ids ! i in
                 (case parse_single_response_for_all parse d of
                    Inl e \<Rightarrow> Inl e
                  | Inr (c, t) \<Rightarrow>
                      extract_loop parse content_ids (Suc i) rest
                        (result @ [\<lparr>content_id = cid, clicked = c, dwell_time = t\<rparr>]))
               else extract_loop parse content_ids (Suc i) rest result)
      | _ \<Rightarrow>
          if i < length content_ids then
            extract_loop parse content_ids (Suc i) rest
              (result @ [\<lparr>content_id = content_ids ! i, clicked = False, dwell_time = 0\<rparr>])
          else extract_loop parse content_ids (Suc i) rest result)"

text \<open>\<open>{int(resp["content_id"]) for resp in result}\<close>, as the list of its members.\<close>

fun int_ids :: "(string \<Rightarrow> int option) \<Rightarrow> response_entry list \<Rightarrow> error + int list" where
  "int_ids parse [] = Inr []"
| "int_ids parse (e # es) =
     (case py_int parse (content_id e) of
        Inl err \<Rightarrow> Inl err
      | Inr n \<Rightarrow> (case int_ids parse es of Inl err \<Rightarrow> Inl err | Inr ns \<Rightarrow> Inr (n # ns)))"

text \<open>
  \<open>v in ids\<close> for a set of ints: a list or a dictionary is unhashable (\<open>TypeError\<close>);
  \<open>True\<close> equals 1, a finite float equals the int of the same value, and NaN and the
  infinities equal no int.
\<close>

fun py_in_ints :: "pyval \<Rightarrow> int list \<Rightarrow> error + bool" where
  "py_in_ints PNone ids = Inr False"
| "py_in_ints (PBool b) ids = Inr ((if b then 1 else 0) \<in> set ids)"
| "py_in_ints (PInt n) ids = Inr (n \<in> set ids)"
| "py_in_ints (PFloat (Finite x)) ids = Inr (list_ex (\<lambda>n. of_int n = x) ids)"
| "py_in_ints (PFloat f) ids = Inr False"
| "py_in_ints (PStr str) ids = Inr False"
| "py_in_ints (PList xs) ids = Inl TypeError"
| "py_in_ints (PDict d) ids = Inl TypeError"

text \<open>The loop over \<open>all_contents\<close> that appends a default entry for an unanswered
  content.\<close>

fun add_missing ::
  "int list \<Rightarrow> (string \<times> pyval) list list \<Rightarrow> response_entry list
     \<Rightarrow> error + response_entry list" where
  "add_missing ids [] result = Inr result"
| "add_missing ids (content # rest) result =
     (let cid = dict_get content ''id'' PNone in
      case py_in_ints cid ids of
        Inl e \<Rightarrow> Inl e
      | Inr True \<Rightarrow> add_missing ids rest result
      | Inr False \<Rightarrow>
          add_missing ids rest
            (result @ [\<lparr>content_id = cid, clicked = False, dwell_time = 0\<rparr>]))"

definition extract_all_content_responses ::
  "(string \<Rightarrow> int option) \<Rightarrow> pyval list \<Rightarrow> (string \<times> pyval) list list
     \<Rightarrow> error + response_entry list" where
  "extract_all_content_responses parse responses all_contents =
     (let content_ids = map (\<lambda>content. dict_get content ''id'' PNone) all_contents in
      case extract_loop parse content_ids 0 responses [] of
        Inl e \<Rightarrow> Inl e
      | Inr result \<Rightarrow>
          (case int_ids parse result of
             Inl e \<Rightarrow> Inl e
           | Inr response_content_ids \<Rightarrow> add_missing response_content_ids all_contents result))"

section \<open>Specification-side definitions and an example environment\<close>

text \<open>
  The next-candidates of one record as the specification words them: every candidate
  embedding of every content type of the record's candidate group.
\<close>

definition spec_candidates :: "cand_group \<Rightarrow> vec set" where
  "spec_candidates nxt = (\<Union>(ctype, embs) \<in> set nxt. set embs)"

text \<open>
  The next-state maximum of one record as the specification words it: the maximum of
  the target estimator over the record's own candidates, paired with the record's own
  next state, and 0 when it has none.
\<close>

definition spec_max_next_value ::
  "('p, 'o, 'b, 'r) collab \<Rightarrow> 'p \<Rightarrow> vec \<Rightarrow> cand_group \<Rightarrow> real" where
  "spec_max_next_value env tp ns nxt =
     (if spec_candidates nxt = {} then 0 else Max (q_value env tp ns ` spec_candidates nxt))"

text \<open>
  The bootstrap targets of a batch as the specification words them, one per record:
  \<open>reward + discount * max_next_value * (1 - done)\<close>.
\<close>

definition spec_targets ::
  "('p, 'o, 'b, 'r) collab \<Rightarrow> 'p \<Rightarrow> real \<Rightarrow> real list \<Rightarrow> vec list \<Rightarrow> cand_group list
     \<Rightarrow> bool list \<Rightarrow> real list" where
  "spec_targets env tp g rewards next_states next_cands_embs dones =
     map (\<lambda>i. rewards ! i
               + g * spec_max_next_value env tp (next_states ! i) (next_cands_embs ! i)
                   * (1 - (if dones ! i then 1 else 0)))
         [0..<length rewards]"

text \<open>
  A small concrete environment for evaluating the model: a one-parameter estimator, a
  buffer that hands out its oldest records, the two losses as torch defines them, and
  a generator whose state counts the draws.
\<close>

definition take_batch :: "nat \<Rightarrow> batch \<Rightarrow> batch" where
  "take_batch n b =
     (case b of (us, ce, rw, (ns, nc), ds) \<Rightarrow>
        (take n us, take n ce, take n rw, (take n ns, take n nc), take n ds))"

definition demo_env :: "(real, nat, batch, nat) collab" where
  "demo_env =
     \<lparr>q_value = (\<lambda>p st c. p * sum_list c),
      buffer_len = (\<lambda>b. int (length (fst b))),
      buffer_sample = (\<lambda>b n r.
         (if 0 \<le> n \<and> n \<le> int (length (fst b)) then Some (take_batch (nat n) b) else None,
          Suc r)),
      mse_loss = (\<lambda>xs ys. sum_list (map (\<lambda>(x, y). (x - y)\<^sup>2) (zip xs ys)) / real (length xs)),
      smooth_l1_loss = (\<lambda>xs ys.
         sum_list (map (\<lambda>(x, y). if \<bar>x - y\<bar> < 1 then (x - y)\<^sup>2 / 2 else \<bar>x - y\<bar> - 1 / 2)
                    (zip xs ys)) / real (length xs)),
      optimizer_step = (\<lambda>L p opt. (p - L p / 10, Suc opt)),
      random_random = (\<lambda>r. (1 / 2, Suc r)),
      random_randrange = (\<lambda>n r. (0, Suc r)),
      random_sample = (\<lambda>xs k r. (take k xs, Suc r))\<rparr>"

text \<open>Two stored records: the first with three next-candidates of values 0.1, 0.9 and
  0.4, the second terminal and without next-candidates.\<close>

definition demo_buffer :: batch where
  "demo_buffer =
     ([[1], [1]], [[1 / 2], [1]], [1, 2],
      ([[1], [1]], [[(''A'', [[1 / 10], [9 / 10]]), (''B'', [[4 / 10]])], []]),
      [False, True])"

text \<open>The same two records with no next-candidate at all.\<close>

definition demo_buffer_no_candidates :: batch where
  "demo_buffer_no_candidates =
     ([[1], [1]], [[1 / 2], [1]], [1, 2], ([[1], [1]], [[(''A'', [])], []]), [False, True])"

definition demo_agent :: "(real, nat, batch) agent" where
  "demo_agent = init 1 0 demo_buffer 2 1 (1 / 10) (1 / 2) (9 / 10) 2 ''mse''"




text \<open>A sampled batch whose columns all hold one entry per record.\<close>

definition well_shaped :: "batch \<Rightarrow> bool" where
  "well_shaped b =
     (case b of (us, ce, rw, (ns, nc), ds) \<Rightarrow>
        length ce = length us \<and> length rw = length us \<and> length ns = length us
        \<and> length nc = length us \<and> length ds = length us)"

text \<open>
  An entry that holds what the response at its position says: the \<open>clicked\<close> and
  \<open>dwell_time\<close> parsed from a dictionary response, and the default \<open>False\<close> and 0 for a
  response that is no dictionary.
\<close>

definition filed_from :: "(string \<Rightarrow> int option) \<Rightarrow> pyval \<Rightarrow> response_entry \<Rightarrow> bool" where
  "filed_from parse resp e =
     (case resp of
        PDict d \<Rightarrow> parse_single_response_for_all parse d = Inr (clicked e, dwell_time e)
      | _ \<Rightarrow> clicked e = False \<and> dwell_time e = 0)"

text \<open>A stand-in for the parser of \<open>int()\<close> on strings, defined on two literals.\<close>

definition demo_parse :: "string \<Rightarrow> int option" where
  "demo_parse str = (if str = ''7'' then Some 7 else if str = ''42'' then Some 42 else None)"

section \<open>Properties\<close>

text \<open>The defining equations of the example environment and of \<open>learn\<close>, for
  evaluating concrete calls.\<close>

lemmas demo_defs = demo_env_def demo_buffer_def take_batch_def demo_agent_def init_def

lemmas learn_defs = learn_def q_forward_def q_batch_def compute_target_def max_next_q_def
  broadcast2_def all_embs_def segment_def np_max_def select_loss_def

subsection \<open>Epsilon decay\<close>

lemma decay_calls_consts:
  "epsilon_min (decay_calls n s) = epsilon_min s \<and> epsilon_dec (decay_calls n s) = epsilon_dec s"
  by (induction n) (simp_all add: decay_epsilon_def)

lemma decay_calls_ge_min:
  "epsilon_min s \<le> epsilon s \<Longrightarrow> epsilon_min s \<le> epsilon (decay_calls n s)"
  by (induction n) (simp_all add: decay_epsilon_def decay_calls_consts)

text \<open>
  Claim C3, as stated, fails: from a starting epsilon of 0.05 below the floor 0.1 the
  first call raises epsilon to the floor; and with a decay rate of 2 every call
  doubles epsilon.
\<close>

theorem decay_epsilon_can_increase:
  "epsilon_min (demo_agent\<lparr>epsilon := 1 / 20\<rparr>) = 1 / 10
   \<and> epsilon (decay_epsilon (demo_agent\<lparr>epsilon := 1 / 20\<rparr>)) = 1 / 10
   \<and> \<not> epsilon (decay_epsilon (demo_agent\<lparr>epsilon := 1 / 20\<rparr>))
         \<le> epsilon (demo_agent\<lparr>epsilon := 1 / 20\<rparr>)
   \<and> epsilon (decay_calls (Suc 0) (demo_agent\<lparr>epsilon_dec := 2\<rparr>)) = 2
   \<and> epsilon (decay_calls (Suc (Suc 0)) (demo_agent\<lparr>epsilon_dec := 2\<rparr>)) = 4
   \<and> \<not> epsilon (decay_calls (Suc (Suc 0)) (demo_agent\<lparr>epsilon_dec := 2\<rparr>))
         \<le> epsilon (decay_calls (Suc 0) (demo_agent\<lparr>epsilon_dec := 2\<rparr>))"
  by (simp add: decay_epsilon_def demo_agent_def init_def)

text \<open>
  Claim C3, amended: every call sets epsilon to
  \<open>max (epsilon * epsilon_dec) epsilon_min\<close>; after every call epsilon is at least
  \<open>epsilon_min\<close>, for any starting value; and epsilon does not increase from one call
  to the next when \<open>0 \<le> epsilon_min \<le> epsilon\<close> holds at the start and
  \<open>epsilon_dec \<le> 1\<close>.
\<close>

theorem decay_epsilon_floor_and_monotone:
  "epsilon (decay_epsilon s) = max (epsilon s * epsilon_dec s) (epsilon_min s)
   \<and> epsilon_min s \<le> epsilon (decay_calls (Suc n) s)
   \<and> (0 \<le> epsilon_min s \<and> epsilon_min s \<le> epsilon s \<and> epsilon_dec s \<le> 1
        \<longrightarrow> epsilon (decay_calls (Suc n) s) \<le> epsilon (decay_calls n s))"
proof (intro conjI impI)
  show "epsilon (decay_epsilon s) = max (epsilon s * epsilon_dec s) (epsilon_min s)"
    by (simp add: decay_epsilon_def)
  show "epsilon_min s \<le> epsilon (decay_calls (Suc n) s)"
    by (simp add: decay_epsilon_def decay_calls_consts)
next
  assume h: "0 \<le> epsilon_min s \<and> epsilon_min s \<le> epsilon s \<and> epsilon_dec s \<le> 1"
  let ?e = "epsilon (decay_calls n s)"
  have ge: "epsilon_min s \<le> ?e" using h by (simp add: decay_calls_ge_min)
  then have nonneg: "0 \<le> ?e" using h by linarith
  have "?e * epsilon_dec s \<le> ?e * 1"
    using h nonneg by (intro mult_left_mono) simp_all
  then show "epsilon (decay_calls (Suc n) s) \<le> ?e"
    using ge by (simp add: decay_epsilon_def decay_calls_consts)
qed

theorem decay_epsilon_floor_and_monotone_witness:
  "0 \<le> epsilon_min demo_agent \<and> epsilon_min demo_agent \<le> epsilon demo_agent
   \<and> epsilon_dec demo_agent \<le> 1
   \<and> epsilon (decay_calls (Suc 0) demo_agent) = 1 / 2
   \<and> epsilon (decay_calls (Suc (Suc 0)) demo_agent) = 1 / 4
   \<and> epsilon (decay_calls (Suc (Suc 0)) demo_agent) \<le> epsilon (decay_calls (Suc 0) demo_agent)"
  using decay_epsilon_floor_and_monotone [of demo_agent "Suc 0"]
  by (simp add: decay_epsilon_def demo_agent_def init_def)

subsection \<open>The batched target computation\<close>

lemma np_max_Max: "xs \<noteq> [] \<Longrightarrow> np_max xs = Max (set xs)"
  by (cases xs) (simp_all add: np_max_def Max.set_eq_fold[symmetric])

lemma segment_map:
  "segment (map idx flat) (map val flat) i = map val (filter (\<lambda>t. idx t = i) flat)"
  by (induction flat) (simp_all add: segment_def)

lemma q_batch_flat:
  "q_batch env tp (map fst flat) (map (\<lambda>t. fst (snd t)) flat)
     = map (\<lambda>t. q_value env tp (fst t) (fst (snd t))) flat"
  by (induction flat) (simp_all add: q_batch_def)

text \<open>The triples tagged \<open>i\<close> are exactly those made from record \<open>i\<close>, in order.\<close>

lemma filter_flatten_from:
  "filter (\<lambda>t. snd (snd t) = i) (flatten_from k xs)
     = (if k \<le> i \<and> i < k + length xs
        then map (\<lambda>cand. (fst (xs ! (i - k)), cand, i)) (all_embs (snd (xs ! (i - k))))
        else [])"
proof (induction xs arbitrary: k)
  case Nil
  then show ?case by auto
next
  case (Cons x xs)
  obtain ns nxt where x: "x = (ns, nxt)" by (cases x)
  have here: "filter (\<lambda>t. snd (snd t) = i) (map (\<lambda>cand. (ns, cand, k)) (all_embs nxt))
      = (if i = k then map (\<lambda>cand. (ns, cand, i)) (all_embs nxt) else [])"
    by (induction "all_embs nxt") (auto simp: filter_map comp_def)
  show ?case
  proof (cases "i = k")
    case True
    then show ?thesis using Cons.IH[of "Suc k"] here x by simp
  next
    case False
    then show ?thesis using Cons.IH[of "Suc k"] here x
      by (auto simp: nth_Cons' Suc_diff_Suc)
  qed
qed

lemma max_next_q_length:
  "length (max_next_q env tp next_states next_cands_embs) = length next_states"
  by (simp add: max_next_q_def Let_def)

text \<open>The flattened candidates of a group are the group's candidates, all types
  included.\<close>

lemma set_all_embs: "set (all_embs nxt) = spec_candidates nxt"
  by (auto simp: all_embs_def spec_candidates_def)

lemma spec_max_all_embs:
  "spec_max_next_value env tp ns nxt
     = (if all_embs nxt = [] then 0 else Max (q_value env tp ns ` set (all_embs nxt)))"
proof -
  have "(spec_candidates nxt = {}) = (all_embs nxt = [])"
    using set_all_embs[of nxt] by (metis set_empty)
  then show ?thesis by (simp add: spec_max_next_value_def set_all_embs)
qed

lemma max_next_q_nth:
  assumes "length next_cands_embs = length next_states" "i < length next_states"
  shows "max_next_q env tp next_states next_cands_embs ! i
     = spec_max_next_value env tp (next_states ! i) (next_cands_embs ! i)"
proof -
  let ?xs = "zip next_states next_cands_embs"
  let ?flat = "flatten_from 0 ?xs"
  let ?cs = "all_embs (next_cands_embs ! i)"
  have seg: "filter (\<lambda>t. snd (snd t) = i) ?flat = map (\<lambda>cand. (next_states ! i, cand, i)) ?cs"
    using assms by (simp add: filter_flatten_from)
  show ?thesis
  proof (cases "?flat = []")
    case True
    then have "?cs = []" using seg by simp
    then show ?thesis using True assms by (simp add: max_next_q_def spec_max_all_embs)
  next
    case False
    have vals: "segment (map (\<lambda>t. snd (snd t)) ?flat)
                  (q_batch env tp (map fst ?flat) (map (\<lambda>t. fst (snd t)) ?flat)) i
                = map (q_value env tp (next_states ! i)) ?cs"
      by (simp add: q_batch_flat segment_map seg comp_def)
    show ?thesis
      using False assms
      by (simp add: max_next_q_def Let_def vals np_max_Max spec_max_all_embs del: upt_Suc)
  qed
qed

lemma compute_target_nth:
  assumes "length rewards = B" "length next_states = B" "length next_cands_embs = B"
    "length dones = B"
  shows "compute_target env tp g rewards next_states next_cands_embs dones
     = Inr (spec_targets env tp g rewards next_states next_cands_embs dones)"
proof -
  let ?mq = "max_next_q env tp next_states next_cands_embs"
  have len: "length ?mq = B" using assms by (simp add: max_next_q_length)
  have "compute_target env tp g rewards next_states next_cands_embs dones
      = Inr (map (\<lambda>(x, y). x + y) (zip rewards
          (map (\<lambda>(x, y). x * y) (zip (map (\<lambda>q. g * q) ?mq)
             (map (\<lambda>d. 1 - d) (map (\<lambda>d. if d then 1 else 0) dones))))))"
    using assms len by (simp add: compute_target_def broadcast2_def Let_def)
  also have "\<dots> = Inr (spec_targets env tp g rewards next_states next_cands_embs dones)"
    unfolding spec_targets_def
    using assms len by (auto intro!: nth_equalityI simp: max_next_q_nth)
  finally show ?thesis .
qed

lemma spec_targets_no_candidates:
  assumes "length next_cands_embs = length rewards"
    "\<forall>i<length rewards. spec_candidates (next_cands_embs ! i) = {}"
  shows "spec_targets env tp g rewards next_states next_cands_embs dones = rewards"
  using assms by (auto intro!: nth_equalityI simp: spec_targets_def spec_max_next_value_def)

text \<open>What \<open>learn\<close> does with a sampled batch whose columns have one length and a
  supported loss, in terms of the target it computes.\<close>

lemma learn_with_target:
  assumes "batch_size s \<le> buffer_len env (buffer s)"
    "buffer_sample env (buffer s) (batch_size s) r
       = (Some (user_states, content_embs, rewards, (next_states, next_cands_embs), dones), r1)"
    "length content_embs = length user_states"
    "compute_target env (target_q_net s) (gamma s) rewards next_states next_cands_embs dones
       = Inr target"
    "select_loss env (loss_type s) = Some loss_fn"
  shows "fst (learn env s r)
           = (if update_freq s = 0 then Inl ZeroDivisionError
              else Inr (Some (loss_fn (q_batch env (q_net s) user_states content_embs) target)))"
    and "(q_net (fst (snd (learn env s r))), optimizer (fst (snd (learn env s r))))
           = optimizer_step env
               (\<lambda>p. loss_fn (q_batch env p user_states content_embs) target)
               (q_net s) (optimizer s)"
  using assms
  by (auto simp: learn_def q_forward_def Let_def split: prod.splits)

text \<open>
  Claim C1: when \<open>learn\<close> samples a batch of \<open>B\<close> records, its target computation, run
  on the target estimator, the discount and the sampled rewards, next states,
  next-candidate groups and dones, raises nothing and yields \<open>B\<close> targets, the one of
  record \<open>i\<close> being \<open>reward i + gamma * m i * (1 - done i)\<close> with \<open>m i\<close> the maximum of
  the target estimator over record \<open>i\<close>'s own next-candidates (of every type) paired with
  its own next state, and 0 when it has none; when no record has a next-candidate the
  targets are the rewards. These targets are the ones \<open>learn\<close> uses: with a supported
  loss, the loss it returns and the optimizer update it makes are those of the
  configured loss between the live predictions and these targets.
\<close>

theorem learn_target_per_record:
  assumes "batch_size s \<le> buffer_len env (buffer s)"
    "buffer_sample env (buffer s) (batch_size s) r
       = (Some (user_states, content_embs, rewards, (next_states, next_cands_embs), dones), r1)"
    "length user_states = B" "length content_embs = B" "length rewards = B"
    "length next_states = B" "length next_cands_embs = B" "length dones = B"
  shows "\<exists>target.
     compute_target env (target_q_net s) (gamma s) rewards next_states next_cands_embs dones
       = Inr target
     \<and> length target = B
     \<and> (\<forall>i<B. target ! i
           = rewards ! i
             + gamma s
                 * spec_max_next_value env (target_q_net s) (next_states ! i)
                     (next_cands_embs ! i)
                 * (1 - (if dones ! i then 1 else 0)))
     \<and> ((\<forall>i<B. spec_candidates (next_cands_embs ! i) = {}) \<longrightarrow> target = rewards)
     \<and> (\<forall>loss_fn. select_loss env (loss_type s) = Some loss_fn \<longrightarrow>
           fst (learn env s r)
             = (if update_freq s = 0 then Inl ZeroDivisionError
                else Inr (Some (loss_fn (q_batch env (q_net s) user_states content_embs)
                                 target)))
           \<and> (q_net (fst (snd (learn env s r))), optimizer (fst (snd (learn env s r))))
               = optimizer_step env
                   (\<lambda>p. loss_fn (q_batch env p user_states content_embs) target)
                   (q_net s) (optimizer s))
     \<and> (select_loss env (loss_type s) = None \<longrightarrow>
           fst (learn env s r) = Inl (ValueError (loss_type s)))"
proof -
  let ?t = "spec_targets env (target_q_net s) (gamma s) rewards next_states next_cands_embs
              dones"
  have ct: "compute_target env (target_q_net s) (gamma s) rewards next_states
              next_cands_embs dones = Inr ?t"
    using assms(5-8) by (rule compute_target_nth)
  have len: "length ?t = B" using assms(5) by (simp add: spec_targets_def)
  have nth: "\<forall>i<B. ?t ! i
           = rewards ! i
             + gamma s
                 * spec_max_next_value env (target_q_net s) (next_states ! i)
                     (next_cands_embs ! i)
                 * (1 - (if dones ! i then 1 else 0))"
    using assms(5) by (simp add: spec_targets_def)
  have empty: "(\<forall>i<B. spec_candidates (next_cands_embs ! i) = {}) \<longrightarrow> ?t = rewards"
    using assms(5,7) by (simp add: spec_targets_no_candidates)
  have lens: "length content_embs = length user_states" using assms(3,4) by simp
  have uses: "\<forall>loss_fn. select_loss env (loss_type s) = Some loss_fn \<longrightarrow>
           fst (learn env s r)
             = (if update_freq s = 0 then Inl ZeroDivisionError
                else Inr (Some (loss_fn (q_batch env (q_net s) user_states content_embs) ?t)))
           \<and> (q_net (fst (snd (learn env s r))), optimizer (fst (snd (learn env s r))))
               = optimizer_step env
                   (\<lambda>p. loss_fn (q_batch env p user_states content_embs) ?t)
                   (q_net s) (optimizer s)"
    using learn_with_target[OF assms(1,2) lens ct] by blast
  have unsupported: "select_loss env (loss_type s) = None \<longrightarrow>
           fst (learn env s r) = Inl (ValueError (loss_type s))"
    using assms(1,2) lens ct by (simp add: learn_def q_forward_def)
  show ?thesis
    using ct len nth empty uses unsupported by (intro exI[of _ ?t] conjI)
qed

theorem learn_target_per_record_witness:
  "batch_size demo_agent \<le> buffer_len demo_env (buffer demo_agent)
   \<and> buffer_sample demo_env (buffer demo_agent) (batch_size demo_agent) 0
       = (Some ([[1], [1]], [[1 / 2], [1]], [1, 2],
                ([[1], [1]], [[(''A'', [[1 / 10], [9 / 10]]), (''B'', [[4 / 10]])], []]),
                [False, True]), 1)
   \<and> compute_target demo_env (target_q_net demo_agent) (gamma demo_agent) [1, 2] [[1], [1]]
        [[(''A'', [[1 / 10], [9 / 10]]), (''B'', [[4 / 10]])], []] [False, True]
       = Inr [181 / 100, 2]
   \<and> fst (learn demo_env demo_agent 0) = Inr (Some (27161 / 20000))
   \<and> buffer_sample demo_env (buffer (demo_agent\<lparr>buffer := demo_buffer_no_candidates\<rparr>))
        (batch_size (demo_agent\<lparr>buffer := demo_buffer_no_candidates\<rparr>)) 0
       = (Some ([[1], [1]], [[1 / 2], [1]], [1, 2], ([[1], [1]], [[(''A'', [])], []]),
                [False, True]), 1)
   \<and> compute_target demo_env (target_q_net demo_agent) (gamma demo_agent) [1, 2] [[1], [1]]
        [[(''A'', [])], []] [False, True]
       = Inr [1, 2]
   \<and> fst (learn demo_env (demo_agent\<lparr>buffer := demo_buffer_no_candidates\<rparr>) 0)
       = Inr (Some (5 / 8))
   \<and> select_loss demo_env (loss_type (demo_agent\<lparr>loss_type := ''l2''\<rparr>)) = None
   \<and> fst (learn demo_env (demo_agent\<lparr>loss_type := ''l2''\<rparr>) 0) = Inl (ValueError ''l2'')"
proof -
  let ?nc = "[[(''A'', [[1 / 10], [9 / 10]]), (''B'', [[4 / 10]])], []] :: cand_group list"
  let ?ne = "[[(''A'', [])], []] :: cand_group list"
  let ?s0 = "demo_agent\<lparr>buffer := demo_buffer_no_candidates\<rparr>"
  have full: "batch_size demo_agent \<le> buffer_len demo_env (buffer demo_agent)"
    "batch_size ?s0 \<le> buffer_len demo_env (buffer ?s0)"
    by (simp_all add: demo_defs demo_buffer_no_candidates_def)
  have smp: "buffer_sample demo_env (buffer demo_agent) (batch_size demo_agent) 0
       = (Some ([[1], [1]], [[1 / 2], [1]], [1, 2], ([[1], [1]], ?nc), [False, True]), 1)"
    "buffer_sample demo_env (buffer ?s0) (batch_size ?s0) 0
       = (Some ([[1], [1]], [[1 / 2], [1]], [1, 2], ([[1], [1]], ?ne), [False, True]), 1)"
    by (simp_all add: demo_defs demo_buffer_no_candidates_def)
  have loss: "select_loss demo_env (loss_type demo_agent) = Some (mse_loss demo_env)"
    "select_loss demo_env (loss_type ?s0) = Some (mse_loss demo_env)"
    by (simp_all add: select_loss_def demo_defs)
  have par: "target_q_net ?s0 = target_q_net demo_agent" "gamma ?s0 = gamma demo_agent"
    "q_net ?s0 = q_net demo_agent" "update_freq ?s0 = 2" "update_freq demo_agent = 2"
    "gamma demo_agent = 9 / 10" "q_net demo_agent = 1" "target_q_net demo_agent = 1"
    by (simp_all add: demo_defs)
  have m0: "spec_max_next_value demo_env 1 [1] (?nc ! 0) = 9 / 10"
    by (simp add: spec_max_next_value_def spec_candidates_def demo_env_def)
  have m1: "spec_max_next_value demo_env 1 [1] (?nc ! 1) = 0"
    by (simp add: spec_max_next_value_def spec_candidates_def)
  have e: "\<forall>i<2. spec_candidates (?ne ! i) = {}"
    by (simp add: spec_candidates_def less_Suc_eq numeral_2_eq_2)
  have qs: "q_batch demo_env 1 [[1], [1]] [[1 / 2], [1]] = [1 / 2, 1]"
    by (simp add: q_batch_def demo_env_def)
  have mse: "mse_loss demo_env [1 / 2, 1] [181 / 100, 2] = 27161 / 20000"
    "mse_loss demo_env [1 / 2, 1] [1, 2] = 5 / 8"
    by (simp_all add: demo_env_def power2_eq_square)

  obtain t where t:
    "compute_target demo_env (target_q_net demo_agent) (gamma demo_agent) [1, 2] [[1], [1]]
       ?nc [False, True] = Inr t"
    "length t = 2"
    "\<forall>i<2. t ! i
       = [1, 2] ! i + gamma demo_agent
           * spec_max_next_value demo_env (target_q_net demo_agent) ([[1], [1]] ! i) (?nc ! i)
           * (1 - (if [False, True] ! i then 1 else 0))"
    "\<forall>loss_fn. select_loss demo_env (loss_type demo_agent) = Some loss_fn \<longrightarrow>
       fst (learn demo_env demo_agent 0)
         = (if update_freq demo_agent = 0 then Inl ZeroDivisionError
            else Inr (Some (loss_fn (q_batch demo_env (q_net demo_agent) [[1], [1]]
                                      [[1 / 2], [1]]) t)))
       \<and> (q_net (fst (snd (learn demo_env demo_agent 0))),
           optimizer (fst (snd (learn demo_env demo_agent 0))))
          = optimizer_step demo_env
              (\<lambda>p. loss_fn (q_batch demo_env p [[1], [1]] [[1 / 2], [1]]) t)
              (q_net demo_agent) (optimizer demo_agent)"
    using learn_target_per_record [OF full(1) smp(1), of 2] by auto
  have "t ! 0 = 181 / 100" using t(3)[rule_format, of 0] m0 par by simp
  moreover have "t ! 1 = 2" using t(3)[rule_format, of 1] m1 par by simp
  ultimately have tv: "t = [181 / 100, 2]"
    using t(2) by (auto intro!: nth_equalityI simp: less_Suc_eq numeral_2_eq_2)
  have l1: "fst (learn demo_env demo_agent 0) = Inr (Some (27161 / 20000))"
    using t(4)[rule_format, OF loss(1)] par qs mse tv by simp

  obtain u where u:
    "compute_target demo_env (target_q_net ?s0) (gamma ?s0) [1, 2] [[1], [1]]
       ?ne [False, True] = Inr u"
    "(\<forall>i<2. spec_candidates (?ne ! i) = {}) \<longrightarrow> u = [1, 2]"
    "\<forall>loss_fn. select_loss demo_env (loss_type ?s0) = Some loss_fn \<longrightarrow>
       fst (learn demo_env ?s0 0)
         = (if update_freq ?s0 = 0 then Inl ZeroDivisionError
            else Inr (Some (loss_fn (q_batch demo_env (q_net ?s0) [[1], [1]]
                                      [[1 / 2], [1]]) u)))
       \<and> (q_net (fst (snd (learn demo_env ?s0 0))),
           optimizer (fst (snd (learn demo_env ?s0 0))))
          = optimizer_step demo_env
              (\<lambda>p. loss_fn (q_batch demo_env p [[1], [1]] [[1 / 2], [1]]) u)
              (q_net ?s0) (optimizer ?s0)"
    using learn_target_per_record [OF full(2) smp(2), of 2] by auto
  have uv: "u = [1, 2]" using u(2) e by blast
  have l2: "fst (learn demo_env ?s0 0) = Inr (Some (5 / 8))"
    using u(3)[rule_format, OF loss(2)] par qs mse uv by simp
  have c1: "compute_target demo_env (target_q_net demo_agent) (gamma demo_agent) [1, 2]
              [[1], [1]] ?nc [False, True] = Inr [181 / 100, 2]"
    using t(1) tv by simp
  have c2: "compute_target demo_env (target_q_net demo_agent) (gamma demo_agent) [1, 2]
              [[1], [1]] ?ne [False, True] = Inr [1, 2]"
    using u(1) uv par(1,2) by simp
  let ?s2 = "demo_agent\<lparr>loss_type := ''l2''\<rparr>"
  have full2: "batch_size ?s2 \<le> buffer_len demo_env (buffer ?s2)"
    by (simp add: demo_defs)
  have smp2: "buffer_sample demo_env (buffer ?s2) (batch_size ?s2) 0
       = (Some ([[1], [1]], [[1 / 2], [1]], [1, 2], ([[1], [1]], ?nc), [False, True]), 1)"
    by (simp add: demo_defs)
  have none: "select_loss demo_env (loss_type ?s2) = None"
    by (simp add: select_loss_def)
  have "select_loss demo_env (loss_type ?s2) = None \<longrightarrow>
          fst (learn demo_env ?s2 0) = Inl (ValueError (loss_type ?s2))"
    using learn_target_per_record [OF full2 smp2, of 2] by auto
  then have l3: "fst (learn demo_env ?s2 0) = Inl (ValueError ''l2'')"
    using none by simp
  show ?thesis
    using full(1) smp c1 l1 c2 l2 none l3 by (intro conjI)
qed

subsection \<open>learn\<close>


text \<open>The same call with an unsupported \<open>loss_type\<close>.\<close>

lemma demo_learn_l2:
  "learn demo_env (demo_agent\<lparr>loss_type := ''l2''\<rparr>) 0
     = (Inl (ValueError ''l2''), demo_agent\<lparr>loss_type := ''l2'', step_count := 1\<rparr>, 1)"
  by (simp add: learn_defs demo_defs)

text \<open>
  Claim C5: when the buffer holds fewer than \<open>batch_size\<close> records, \<open>learn\<close> returns
  \<open>None\<close>, raises nothing, and leaves the whole agent (step counter, epsilon, live and
  target parameters, optimizer state) and the random generator as they were: nothing
  is sampled.
\<close>

theorem learn_noop_below_batch_size:
  "buffer_len env (buffer s) < batch_size s \<Longrightarrow> learn env s r = (Inr None, s, r)"
  by (simp add: learn_def)

theorem learn_noop_below_batch_size_witness:
  "buffer_len demo_env (buffer (demo_agent\<lparr>batch_size := 3\<rparr>))
     < batch_size (demo_agent\<lparr>batch_size := 3\<rparr>)
   \<and> learn demo_env (demo_agent\<lparr>batch_size := 3\<rparr>) 0
       = (Inr None, demo_agent\<lparr>batch_size := 3\<rparr>, 0)"
proof -
  have h: "buffer_len demo_env (buffer (demo_agent\<lparr>batch_size := 3\<rparr>))
     < batch_size (demo_agent\<lparr>batch_size := 3\<rparr>)"
    by (simp add: demo_defs)
  show ?thesis using h learn_noop_below_batch_size[OF h, of 0] by simp
qed

lemma broadcast2_error: "broadcast2 f xs ys = Inl e \<Longrightarrow> e = TorchError"
  by (auto simp: broadcast2_def split: if_splits)

lemma compute_target_error:
  "compute_target env tp g rewards next_states next_cands_embs dones = Inl e \<Longrightarrow> e = TorchError"
  by (auto simp: compute_target_def Let_def split: sum.splits dest: broadcast2_error)

lemma q_forward_error: "q_forward env p us ce = Inl e \<Longrightarrow> e = TorchError"
  by (auto simp: q_forward_def split: if_splits)

lemma learn_value_error:
  assumes "learn env s r = (Inl (ValueError m), s', r')"
  shows "s' = s\<lparr>step_count := step_count s + 1\<rparr> \<and> m = loss_type s
       \<and> batch_size s \<le> buffer_len env (buffer s) \<and> select_loss env (loss_type s) = None"
  using assms unfolding learn_def Let_def
  by (auto split: if_splits prod.splits option.splits sum.splits
      dest: compute_target_error q_forward_error)

text \<open>
  Claim C10: when \<open>learn\<close> raises the \<open>ValueError\<close> of an unsupported \<open>loss_type\<close>, the
  agent it leaves behind differs from the one it was called on: the step counter has
  been incremented by one (and nothing else has changed). The buffer held at least
  \<open>batch_size\<close> records and \<open>loss_type\<close> is neither \<open>mse\<close> nor \<open>smooth_l1\<close>.
\<close>

theorem learn_config_error_mutates_step_count:
  assumes "fst (learn env s r) = Inl (ValueError m)"
  shows "step_count (fst (snd (learn env s r))) = step_count s + 1
       \<and> fst (snd (learn env s r)) = s\<lparr>step_count := step_count s + 1\<rparr>
       \<and> fst (snd (learn env s r)) \<noteq> s
       \<and> batch_size s \<le> buffer_len env (buffer s)
       \<and> loss_type s \<noteq> ''mse'' \<and> loss_type s \<noteq> ''smooth_l1''"
proof -
  obtain s' r' where l: "learn env s r = (Inl (ValueError m), s', r')"
    using assms by (cases "learn env s r") auto
  from learn_value_error[OF l] have s': "s' = s\<lparr>step_count := step_count s + 1\<rparr>"
    and rest: "batch_size s \<le> buffer_len env (buffer s)" "select_loss env (loss_type s) = None"
    by simp_all
  have "step_count s' \<noteq> step_count s" using s' by simp
  then have "s' \<noteq> s" by auto
  moreover have "loss_type s \<noteq> ''mse'' \<and> loss_type s \<noteq> ''smooth_l1''"
    using rest(2) by (auto simp: select_loss_def split: if_splits)
  ultimately show ?thesis using l s' rest by simp
qed

theorem learn_config_error_mutates_step_count_witness:
  "fst (learn demo_env (demo_agent\<lparr>loss_type := ''l2''\<rparr>) 0) = Inl (ValueError ''l2'')
   \<and> step_count (demo_agent\<lparr>loss_type := ''l2''\<rparr>) = 0
   \<and> step_count (fst (snd (learn demo_env (demo_agent\<lparr>loss_type := ''l2''\<rparr>) 0))) = 1"
proof -
  have h: "fst (learn demo_env (demo_agent\<lparr>loss_type := ''l2''\<rparr>) 0) = Inl (ValueError ''l2'')"
    by (simp add: demo_learn_l2)
  have z: "step_count (demo_agent\<lparr>loss_type := ''l2''\<rparr>) = 0" by (simp add: demo_defs)
  show ?thesis using h z learn_config_error_mutates_step_count[OF h] by simp
qed

text \<open>
  Claim C8, as stated, fails: with an unsupported \<open>loss_type\<close> and a buffer below
  \<open>batch_size\<close>, \<open>learn\<close> returns \<open>None\<close> and raises nothing.
\<close>

theorem learn_unsupported_loss_below_batch_size_returns_none:
  "loss_type (demo_agent\<lparr>loss_type := ''l2'', batch_size := 3\<rparr>) \<noteq> ''mse''
   \<and> loss_type (demo_agent\<lparr>loss_type := ''l2'', batch_size := 3\<rparr>) \<noteq> ''smooth_l1''
   \<and> fst (learn demo_env (demo_agent\<lparr>loss_type := ''l2'', batch_size := 3\<rparr>) 0) = Inr None"
  by (simp add: learn_def demo_defs)

lemma learn_well_shaped_unsupported:
  assumes "batch_size s \<le> buffer_len env (buffer s)"
    "buffer_sample env (buffer s) (batch_size s) r = (Some b, r1)" "well_shaped b"
    "select_loss env (loss_type s) = None"
  shows "learn env s r = (Inl (ValueError (loss_type s)), s\<lparr>step_count := step_count s + 1\<rparr>, r1)"
proof -
  obtain us ce rw ns nc ds where b: "b = (us, ce, rw, (ns, nc), ds)"
    by (metis prod_cases5 surj_pair)
  have len: "length ce = length us" "length rw = length us" "length ns = length us"
    "length nc = length us" "length ds = length us"
    using assms(3) b by (simp_all add: well_shaped_def)
  have t: "compute_target env (target_q_net s) (gamma s) rw ns nc ds
      = Inr (spec_targets env (target_q_net s) (gamma s) rw ns nc ds)"
    using len by (intro compute_target_nth[of _ "length us"]) simp_all
  show ?thesis
    using assms(1,2,4) b len t by (simp add: learn_def q_forward_def)
qed

text \<open>
  Claim C8, amended: \<open>learn\<close> raises the configuration error exactly when \<open>loss_type\<close>
  is unsupported and the buffer holds at least \<open>batch_size\<close> records, given that
  sampling then yields a batch whose columns have one length. Below \<open>batch_size\<close> it
  returns \<open>None\<close> whatever the selector; \<open>init\<close> checks no argument.
\<close>

theorem learn_raises_config_error_iff:
  assumes "batch_size s \<le> buffer_len env (buffer s)
           \<longrightarrow> (\<exists>b r1. buffer_sample env (buffer s) (batch_size s) r = (Some b, r1)
                        \<and> well_shaped b)"
  shows "(\<exists>m. fst (learn env s r) = Inl (ValueError m))
     \<longleftrightarrow> (loss_type s \<noteq> ''mse'' \<and> loss_type s \<noteq> ''smooth_l1''
          \<and> batch_size s \<le> buffer_len env (buffer s))"
proof
  assume "\<exists>m. fst (learn env s r) = Inl (ValueError m)"
  then obtain m s' r' where "learn env s r = (Inl (ValueError m), s', r')"
    by (cases "learn env s r") auto
  from learn_value_error[OF this]
  show "loss_type s \<noteq> ''mse'' \<and> loss_type s \<noteq> ''smooth_l1''
          \<and> batch_size s \<le> buffer_len env (buffer s)"
    by (auto simp: select_loss_def split: if_splits)
next
  assume h: "loss_type s \<noteq> ''mse'' \<and> loss_type s \<noteq> ''smooth_l1''
          \<and> batch_size s \<le> buffer_len env (buffer s)"
  then obtain b r1 where b: "buffer_sample env (buffer s) (batch_size s) r = (Some b, r1)"
    "well_shaped b" using assms by blast
  have "select_loss env (loss_type s) = None" using h by (simp add: select_loss_def)
  from learn_well_shaped_unsupported[OF _ b this] h
  show "\<exists>m. fst (learn env s r) = Inl (ValueError m)" by simp
qed

theorem learn_raises_config_error_iff_witness:
  "batch_size (demo_agent\<lparr>loss_type := ''l2''\<rparr>)
     \<le> buffer_len demo_env (buffer (demo_agent\<lparr>loss_type := ''l2''\<rparr>))
   \<and> buffer_sample demo_env (buffer (demo_agent\<lparr>loss_type := ''l2''\<rparr>))
        (batch_size (demo_agent\<lparr>loss_type := ''l2''\<rparr>)) 0 = (Some demo_buffer, 1)
   \<and> well_shaped demo_buffer
   \<and> (\<exists>m. fst (learn demo_env (demo_agent\<lparr>loss_type := ''l2''\<rparr>) 0) = Inl (ValueError m))
   \<and> \<not> (\<exists>m. fst (learn demo_env demo_agent 0) = Inl (ValueError m))"
proof -
  let ?s = "demo_agent\<lparr>loss_type := ''l2''\<rparr>"
  have full: "batch_size ?s \<le> buffer_len demo_env (buffer ?s)"
    "batch_size demo_agent \<le> buffer_len demo_env (buffer demo_agent)"
    by (simp_all add: demo_defs)
  have smp: "buffer_sample demo_env (buffer ?s) (batch_size ?s) 0 = (Some demo_buffer, 1)"
    "buffer_sample demo_env (buffer demo_agent) (batch_size demo_agent) 0 = (Some demo_buffer, 1)"
    by (simp_all add: demo_defs)
  have ws: "well_shaped demo_buffer" by (simp add: well_shaped_def demo_buffer_def)
  have lt: "loss_type ?s \<noteq> ''mse'' \<and> loss_type ?s \<noteq> ''smooth_l1''" "loss_type demo_agent = ''mse''"
    by (simp_all add: demo_defs)
  have "\<exists>m. fst (learn demo_env ?s 0) = Inl (ValueError m)"
    using learn_raises_config_error_iff[of ?s demo_env 0] full smp ws lt by blast
  moreover have "\<not> (\<exists>m. fst (learn demo_env demo_agent 0) = Inl (ValueError m))"
    using learn_raises_config_error_iff[of demo_agent demo_env 0] full smp ws lt by blast
  ultimately show ?thesis using full smp ws by blast
qed





subsection \<open>Checkpoints\<close>

text \<open>
  Claim C2, as stated, fails for the step counter: an agent at step 5 that loads a
  checkpoint without \<open>step_count\<close> ends at step 0.
\<close>

theorem load_missing_step_count_resets:
  "ckpt_step_count ((save demo_agent)\<lparr>ckpt_step_count := None\<rparr>) = None
   \<and> fst (load (demo_agent\<lparr>step_count := 5\<rparr>) ((save demo_agent)\<lparr>ckpt_step_count := None\<rparr>))
       = None
   \<and> step_count (demo_agent\<lparr>step_count := 5\<rparr>) = 5
   \<and> step_count (snd (load (demo_agent\<lparr>step_count := 5\<rparr>)
         ((save demo_agent)\<lparr>ckpt_step_count := None\<rparr>))) = 0"
  by (simp add: load_def save_def get_or_def)

text \<open>
  Claim C2, amended: loading a checkpoint that has the two parameter sets and the
  optimizer state does not fail when an optional field is missing; a missing
  \<open>epsilon\<close>, \<open>epsilon_min\<close> or \<open>epsilon_dec\<close> leaves that attribute at its pre-load
  value, and a missing \<open>step_count\<close> sets the step counter to 0.
\<close>

theorem load_missing_optional_fields:
  assumes "q_net_state ck = Some qp" "target_net_state ck = Some tp"
    "optimizer_state ck = Some os"
  shows "fst (load s ck) = None
       \<and> (ckpt_epsilon ck = None \<longrightarrow> epsilon (snd (load s ck)) = epsilon s)
       \<and> (ckpt_epsilon_min ck = None \<longrightarrow> epsilon_min (snd (load s ck)) = epsilon_min s)
       \<and> (ckpt_epsilon_dec ck = None \<longrightarrow> epsilon_dec (snd (load s ck)) = epsilon_dec s)
       \<and> (ckpt_step_count ck = None \<longrightarrow> step_count (snd (load s ck)) = 0)"
  using assms by (simp add: load_def get_or_def Let_def)

theorem load_missing_optional_fields_witness:
  "q_net_state \<lparr>q_net_state = Some (2 :: real), target_net_state = Some 3,
       optimizer_state = Some (7 :: nat), ckpt_step_count = None, ckpt_epsilon = None,
       ckpt_epsilon_min = None, ckpt_epsilon_dec = None\<rparr> = Some 2
   \<and> fst (load (demo_agent\<lparr>step_count := 5\<rparr>)
        \<lparr>q_net_state = Some 2, target_net_state = Some 3,
         optimizer_state = Some 7, ckpt_step_count = None, ckpt_epsilon = None,
         ckpt_epsilon_min = None, ckpt_epsilon_dec = None\<rparr>) = None
   \<and> snd (load (demo_agent\<lparr>step_count := 5\<rparr>)
        \<lparr>q_net_state = Some 2, target_net_state = Some 3,
         optimizer_state = Some 7, ckpt_step_count = None, ckpt_epsilon = None,
         ckpt_epsilon_min = None, ckpt_epsilon_dec = None\<rparr>)
     = demo_agent\<lparr>q_net := 2, target_q_net := 3, optimizer := 7, step_count := 0\<rparr>"
proof -
  let ?ck = "\<lparr>q_net_state = Some (2 :: real), target_net_state = Some 3,
       optimizer_state = Some (7 :: nat), ckpt_step_count = None, ckpt_epsilon = None,
       ckpt_epsilon_min = None, ckpt_epsilon_dec = None\<rparr>"
  let ?s = "demo_agent\<lparr>step_count := 5\<rparr>"
  have f: "fst (load ?s ?ck) = None"
    "epsilon (snd (load ?s ?ck)) = epsilon ?s"
    "epsilon_min (snd (load ?s ?ck)) = epsilon_min ?s"
    "epsilon_dec (snd (load ?s ?ck)) = epsilon_dec ?s"
    "step_count (snd (load ?s ?ck)) = 0"
    using load_missing_optional_fields [of ?ck 2 3 7 ?s] by simp_all
  have rest: "q_net (snd (load ?s ?ck)) = 2" "target_q_net (snd (load ?s ?ck)) = 3"
    "optimizer (snd (load ?s ?ck)) = 7" "agent.more (snd (load ?s ?ck)) = ()"
    "buffer (snd (load ?s ?ck)) = buffer ?s" "gamma (snd (load ?s ?ck)) = gamma ?s"
    "batch_size (snd (load ?s ?ck)) = batch_size ?s"
    "update_freq (snd (load ?s ?ck)) = update_freq ?s"
    "loss_type (snd (load ?s ?ck)) = loss_type ?s"
    by (simp_all add: load_def Let_def)
  show ?thesis using f rest by (simp add: agent.equality)
qed

subsection \<open>select_action\<close>

lemma q_batch_replicate:
  "q_batch env p (replicate (length embs) st) embs = map (q_value env p st) embs"
  by (auto intro!: nth_equalityI simp: q_batch_def)

lemma argmax_from_spec:
  assumes "bi < length pre" "best = pre ! bi"
    "\<forall>j<length pre. pre ! j \<le> best" "\<forall>j<bi. pre ! j < best"
  shows "argmax_from bi best (length pre) qs < length (pre @ qs)
       \<and> (\<forall>j<length (pre @ qs). (pre @ qs) ! j \<le> (pre @ qs) ! argmax_from bi best (length pre) qs)
       \<and> (\<forall>j<argmax_from bi best (length pre) qs.
             (pre @ qs) ! j < (pre @ qs) ! argmax_from bi best (length pre) qs)"
  using assms
proof (induction qs arbitrary: pre bi best)
  case Nil
  then show ?case by simp
next
  case (Cons q qs)
  show ?case
  proof (cases "best < q")
    case True
    have "argmax_from (length pre) q (length (pre @ [q])) qs < length ((pre @ [q]) @ qs)
       \<and> (\<forall>j<length ((pre @ [q]) @ qs). ((pre @ [q]) @ qs) ! j
             \<le> ((pre @ [q]) @ qs) ! argmax_from (length pre) q (length (pre @ [q])) qs)
       \<and> (\<forall>j<argmax_from (length pre) q (length (pre @ [q])) qs.
             ((pre @ [q]) @ qs) ! j
               < ((pre @ [q]) @ qs) ! argmax_from (length pre) q (length (pre @ [q])) qs)"
    proof (rule Cons.IH)
      show "length pre < length (pre @ [q])" by simp
      show "q = (pre @ [q]) ! length pre" by simp
      show "\<forall>j<length (pre @ [q]). (pre @ [q]) ! j \<le> q"
        using Cons.prems(3) True by (auto simp: nth_append less_Suc_eq)
      show "\<forall>j<length pre. (pre @ [q]) ! j < q"
        using Cons.prems(3) True by (auto simp: nth_append)
    qed
    then show ?thesis using True by simp
  next
    case False
    have "argmax_from bi best (length (pre @ [q])) qs < length ((pre @ [q]) @ qs)
       \<and> (\<forall>j<length ((pre @ [q]) @ qs). ((pre @ [q]) @ qs) ! j
             \<le> ((pre @ [q]) @ qs) ! argmax_from bi best (length (pre @ [q])) qs)
       \<and> (\<forall>j<argmax_from bi best (length (pre @ [q])) qs.
             ((pre @ [q]) @ qs) ! j
               < ((pre @ [q]) @ qs) ! argmax_from bi best (length (pre @ [q])) qs)"
    proof (rule Cons.IH)
      show "bi < length (pre @ [q])" using Cons.prems(1) by simp
      show "best = (pre @ [q]) ! bi" using Cons.prems(1,2) by (simp add: nth_append)
      show "\<forall>j<length (pre @ [q]). (pre @ [q]) ! j \<le> best"
        using Cons.prems(3) False by (auto simp: nth_append less_Suc_eq)
      show "\<forall>j<bi. (pre @ [q]) ! j < best"
        using Cons.prems(1,4) by (auto simp: nth_append)
    qed
    then show ?thesis using False by simp
  qed
qed

lemma argmax_spec:
  assumes "qs \<noteq> []"
  shows "argmax qs < length qs \<and> (\<forall>j<length qs. qs ! j \<le> qs ! argmax qs)
       \<and> (\<forall>j<argmax qs. qs ! j < qs ! argmax qs)"
proof -
  obtain q rest where qs: "qs = q # rest" using assms by (cases qs) auto
  show ?thesis
    using argmax_from_spec[of 0 "[q]" q rest] by (simp add: argmax_def qs)
qed

text \<open>
  Claim C7: on a non-empty candidate list and without an exploration draw,
  \<open>select_action\<close> evaluates the live estimator once per candidate against the given
  state and returns an index within the list whose value is maximal, every earlier
  candidate having a strictly smaller value.
\<close>

theorem select_action_exploits_first_maximum:
  assumes "candidate_embs \<noteq> []" "random_random env r = (u, r1)" "\<not> u < epsilon s"
  shows "\<exists>i. select_action env s user_state candidate_embs r = (Inr i, r1)
       \<and> i = argmax (map (q_value env (q_net s) user_state) candidate_embs)
       \<and> i < length candidate_embs
       \<and> (\<forall>j<length candidate_embs.
             q_value env (q_net s) user_state (candidate_embs ! j)
               \<le> q_value env (q_net s) user_state (candidate_embs ! i))
       \<and> (\<forall>j<i. q_value env (q_net s) user_state (candidate_embs ! j)
               < q_value env (q_net s) user_state (candidate_embs ! i))"
proof -
  let ?qs = "map (q_value env (q_net s) user_state) candidate_embs"
  have ne: "?qs \<noteq> []" using assms(1) by simp
  have sel: "select_action env s user_state candidate_embs r = (Inr (argmax ?qs), r1)"
    using assms by (simp add: select_action_def q_batch_replicate)
  from argmax_spec[OF ne] have a': "argmax ?qs < length ?qs"
    and b: "\<forall>j<length ?qs. ?qs ! j \<le> ?qs ! argmax ?qs"
    and c: "\<forall>j<argmax ?qs. ?qs ! j < ?qs ! argmax ?qs" by blast+
  have a: "argmax ?qs < length candidate_embs" using a' by simp
  have "\<forall>j<length candidate_embs.
             q_value env (q_net s) user_state (candidate_embs ! j)
               \<le> q_value env (q_net s) user_state (candidate_embs ! argmax ?qs)"
  proof (intro allI impI)
    fix j assume j: "j < length candidate_embs"
    then have "?qs ! j \<le> ?qs ! argmax ?qs" using b by simp
    then show "q_value env (q_net s) user_state (candidate_embs ! j)
               \<le> q_value env (q_net s) user_state (candidate_embs ! argmax ?qs)"
      using j a by simp
  qed
  moreover have "\<forall>j<argmax ?qs. q_value env (q_net s) user_state (candidate_embs ! j)
               < q_value env (q_net s) user_state (candidate_embs ! argmax ?qs)"
  proof (intro allI impI)
    fix j assume j: "j < argmax ?qs"
    then have "?qs ! j < ?qs ! argmax ?qs" using c by simp
    then show "q_value env (q_net s) user_state (candidate_embs ! j)
               < q_value env (q_net s) user_state (candidate_embs ! argmax ?qs)"
      using j a by simp
  qed
  ultimately show ?thesis using sel a by blast
qed

theorem select_action_exploits_first_maximum_witness:
  "[[1 / 5], [9 / 10], [9 / 10]] \<noteq> ([] :: vec list)
   \<and> random_random demo_env 0 = (1 / 2, 1)
   \<and> \<not> 1 / 2 < epsilon (demo_agent\<lparr>epsilon := 0\<rparr>)
   \<and> select_action demo_env (demo_agent\<lparr>epsilon := 0\<rparr>) [1] [[1 / 5], [9 / 10], [9 / 10]] 0
       = (Inr 1, 1)"
proof -
  let ?s = "demo_agent\<lparr>epsilon := 0\<rparr>"
  have h: "[[1 / 5], [9 / 10], [9 / 10]] \<noteq> ([] :: vec list)"
    "random_random demo_env 0 = (1 / 2, 1)" "\<not> 1 / 2 < epsilon ?s"
    by (simp_all add: demo_defs)
  have "argmax (map (q_value demo_env (q_net ?s) [1]) [[1 / 5], [9 / 10], [9 / 10]]) = 1"
    by (simp add: argmax_def demo_defs)
  then show ?thesis
    using select_action_exploits_first_maximum [OF h, of "[1]"] h by auto
qed

subsection \<open>select_slate\<close>

text \<open>Each type contributes one scored entry per embedding, in index order; a type
  without embeddings contributes none, with or without the \<open>continue\<close>.\<close>

lemma scored_of_type:
  "(if embs = [] then []
    else let state_rep = replicate (length embs) st;
             q_vals = q_batch env p state_rep embs
         in map (\<lambda>(i, q_val). ((ctype, i), q_val)) (enumerate 0 q_vals))
   = map (\<lambda>i. ((ctype, i), q_value env p st (embs ! i))) [0..<length embs]"
  by (auto intro!: nth_equalityI simp: q_batch_replicate Let_def nth_enumerate_eq)

lemma q_values_with_pos_eq:
  "q_values_with_pos env p st candidate_embs
     = concat (map (\<lambda>(ctype, embs).
         map (\<lambda>i. ((ctype, i), q_value env p st (embs ! i))) [0..<length embs]) candidate_embs)"
  unfolding q_values_with_pos_def
  by (rule arg_cong[where f = concat], rule map_cong[OF refl]) (auto simp: scored_of_type)

lemma q_values_with_pos_ids:
  "map fst (q_values_with_pos env p st candidate_embs) = all_candidates candidate_embs"
  by (induction candidate_embs)
     (auto simp: q_values_with_pos_eq all_candidates_def comp_def split: prod.splits)

lemma sort_desc_sorted: "sorted_wrt (\<lambda>a b. snd b \<le> snd a) (sort_desc xs)"
proof -
  have "sorted (map (\<lambda>x. - snd x) (sort_desc xs))"
    unfolding sort_desc_def by (rule sorted_sort_key)
  then show ?thesis by (simp add: sorted_map)
qed

lemma sort_desc_stable:
  "filter (\<lambda>x. snd x = v) (sort_desc xs) = filter (\<lambda>x. snd x = v) xs"
  using sort_key_stable[of "\<lambda>x. - snd x" "- v" xs] by (simp add: sort_desc_def)

lemma sort_desc_mset: "mset (sort_desc xs) = mset xs"
  by (simp add: sort_desc_def)

text \<open>
  Claim C6: without an exploration draw and for a requested size \<open>k \<ge> 0\<close>,
  \<open>select_slate\<close> scores every (type, index) candidate once with the live estimator,
  in flatten order; ranks the scored pairs descending by value, entries of equal value
  keeping their flatten order; and returns the identifiers of the first
  \<open>min k total\<close> ranked pairs, in ranked order.
\<close>

theorem select_slate_exploits_ranked_top_k:
  assumes "all_candidates candidate_embs \<noteq> []" "random_random env r = (u, r1)"
    "\<not> u < epsilon s" "0 \<le> max_recs"
  shows "select_slate env s state candidate_embs max_recs r
           = (Inr (map fst (take (nat max_recs)
                 (sort_desc (q_values_with_pos env (q_net s) state candidate_embs)))), r1)
       \<and> q_values_with_pos env (q_net s) state candidate_embs
           = concat (map (\<lambda>(ctype, embs).
               map (\<lambda>i. ((ctype, i), q_value env (q_net s) state (embs ! i))) [0..<length embs])
               candidate_embs)
       \<and> map fst (q_values_with_pos env (q_net s) state candidate_embs)
           = all_candidates candidate_embs
       \<and> mset (sort_desc (q_values_with_pos env (q_net s) state candidate_embs))
           = mset (q_values_with_pos env (q_net s) state candidate_embs)
       \<and> sorted_wrt (\<lambda>a b. snd b \<le> snd a)
           (sort_desc (q_values_with_pos env (q_net s) state candidate_embs))
       \<and> (\<forall>v. filter (\<lambda>x. snd x = v)
                 (sort_desc (q_values_with_pos env (q_net s) state candidate_embs))
              = filter (\<lambda>x. snd x = v) (q_values_with_pos env (q_net s) state candidate_embs))
       \<and> length (map fst (take (nat max_recs)
             (sort_desc (q_values_with_pos env (q_net s) state candidate_embs))))
           = min (nat max_recs) (length (all_candidates candidate_embs))"
proof -
  let ?scored = "q_values_with_pos env (q_net s) state candidate_embs"
  have sel: "select_slate env s state candidate_embs max_recs r
           = (Inr (map fst (take (nat max_recs) (sort_desc ?scored))), r1)"
    using assms by (simp add: select_slate_def py_prefix_def)
  have "length (sort_desc ?scored) = length (all_candidates candidate_embs)"
    using q_values_with_pos_ids[of env "q_net s" state candidate_embs]
    by (metis length_map sort_desc_mset size_mset)
  then have len: "length (map fst (take (nat max_recs) (sort_desc ?scored)))
           = min (nat max_recs) (length (all_candidates candidate_embs))"
    by simp
  show ?thesis
    using sel len q_values_with_pos_eq[of env "q_net s" state candidate_embs]
      q_values_with_pos_ids[of env "q_net s" state candidate_embs]
      sort_desc_mset[of ?scored] sort_desc_sorted[of ?scored] sort_desc_stable[of _ ?scored]
    by blast
qed

theorem select_slate_exploits_ranked_top_k_witness:
  "all_candidates [(''A'', [[1 / 5], [1 / 2]]), (''B'', [[9 / 10]])] \<noteq> []
   \<and> random_random demo_env 0 = (1 / 2, 1)
   \<and> \<not> 1 / 2 < epsilon (demo_agent\<lparr>epsilon := 0\<rparr>)
   \<and> q_values_with_pos demo_env (q_net (demo_agent\<lparr>epsilon := 0\<rparr>)) [1]
        [(''A'', [[1 / 5], [1 / 2]]), (''B'', [[9 / 10]])]
       = [((''A'', 0), 1 / 5), ((''A'', 1), 1 / 2), ((''B'', 0), 9 / 10)]
   \<and> select_slate demo_env (demo_agent\<lparr>epsilon := 0\<rparr>) [1]
        [(''A'', [[1 / 5], [1 / 2]]), (''B'', [[9 / 10]])] 2 0
       = (Inr [(''B'', 0), (''A'', 1)], 1)"
proof -
  let ?s = "demo_agent\<lparr>epsilon := 0\<rparr>"
  let ?c = "[(''A'', [[1 / 5], [1 / 2]]), (''B'', [[9 / 10]])] :: cand_group"
  have h: "all_candidates ?c \<noteq> []" "random_random demo_env 0 = (1 / 2, 1)"
    "\<not> 1 / 2 < epsilon ?s" "(0 :: int) \<le> 2"
    by (simp_all add: all_candidates_def demo_defs)
  have sc: "q_values_with_pos demo_env (q_net ?s) [1] ?c
       = [((''A'', 0), 1 / 5), ((''A'', 1), 1 / 2), ((''B'', 0), 9 / 10)]"
    by (simp add: q_values_with_pos_def q_batch_def enumerate_eq_zip demo_defs)
  have srt: "sort_desc [((''A'', 0 :: nat), 1 / 5), ((''A'', 1), 1 / 2), ((''B'', 0), 9 / 10)]
       = [((''B'', 0), 9 / 10), ((''A'', 1), 1 / 2), ((''A'', 0), 1 / 5)]"
    by (simp add: sort_desc_def)
  have "select_slate demo_env ?s [1] ?c 2 0
     = (Inr (map fst (take (nat 2) (sort_desc (q_values_with_pos demo_env (q_net ?s) [1] ?c)))), 1)"
    using select_slate_exploits_ranked_top_k [OF h, of "[1]"] by blast
  then have "select_slate demo_env ?s [1] ?c 2 0 = (Inr [(''B'', 0), (''A'', 1)], 1)"
    unfolding sc srt by (simp add: numeral_2_eq_2)
  then show ?thesis using h sc by simp
qed

subsection \<open>Extraction of the per-content responses\<close>

lemma py_int_number:
  assumes "is_number v" "\<forall>f. v = PFloat f \<longrightarrow> (\<exists>x. f = Finite x)"
  shows "\<exists>n. py_int parse v = Inr n"
  using assms by (cases v) auto

text \<open>\<open>_parse_single_response_for_all\<close> returns unless the dwell time is a NaN or an
  infinity.\<close>

lemma parse_single_succeeds:
  assumes "\<forall>f. dwell_value d = PFloat f \<longrightarrow> (\<exists>x. f = Finite x)"
  shows "\<exists>c t. parse_single_response_for_all parse d = Inr (c, t)"
proof -
  let ?c = "case dict_get d ''clicked'' (PBool False) of PBool b \<Rightarrow> b | _ \<Rightarrow> False"
  let ?d1 = "if is_number (dwell_value d)
             then (if lt_zero (dwell_value d) then PInt 0 else dwell_value d) else PInt 0"
  let ?d2 = "if ?c then ?d1 else if gt_zero ?d1 then PInt 0 else ?d1"
  have "?d2 = PInt 0 \<or> (?d2 = dwell_value d \<and> is_number (dwell_value d))"
    by (cases "is_number (dwell_value d)") auto
  then have "is_number ?d2 \<and> (\<forall>f. ?d2 = PFloat f \<longrightarrow> (\<exists>x. f = Finite x))"
    using assms by (elim disjE) auto
  then obtain n where "py_int parse ?d2 = Inr n"
    using py_int_number[of ?d2 parse] by blast
  then show ?thesis by (simp add: parse_single_response_for_all_def Let_def)
qed

text \<open>One round of the loop on a position within the contents: an exception, or one
  more entry, holding the identifier of that position and what the response says.\<close>

lemma extract_loop_step:
  assumes "extract_loop parse ids i (resp # rest) result = Inr out" "i < length ids"
  shows "\<exists>e. extract_loop parse ids (Suc i) rest (result @ [e]) = Inr out
           \<and> content_id e = ids ! i \<and> filed_from parse resp e"
proof (cases resp)
  case (PDict d)
  from assms obtain n where "py_int parse (dict_get d ''content_id'' PNone) = Inr n"
    using PDict by (auto split: sum.splits)
  moreover from this assms obtain c t
    where ct: "parse_single_response_for_all parse d = Inr (c, t)"
    using PDict by (auto split: sum.splits)
  ultimately have
    "extract_loop parse ids (Suc i) rest
       (result @ [\<lparr>content_id = ids ! i, clicked = c, dwell_time = t\<rparr>]) = Inr out"
    using assms PDict by simp
  then show ?thesis using ct PDict by (auto simp: filed_from_def)
qed (use assms in \<open>auto simp: filed_from_def\<close>)

lemma extract_loop_positions:
  assumes "extract_loop parse ids i resps result = Inr out" "i + length resps \<le> length ids"
  shows "\<exists>new. out = result @ new \<and> length new = length resps
           \<and> (\<forall>j<length resps. content_id (new ! j) = ids ! (i + j)
                  \<and> filed_from parse (resps ! j) (new ! j))"
  using assms
proof (induction resps arbitrary: i result)
  case Nil
  then show ?case by simp
next
  case (Cons resp rest)
  have i: "i < length ids" using Cons.prems(2) by simp
  from extract_loop_step[OF Cons.prems(1) i]
  obtain e where step: "extract_loop parse ids (Suc i) rest (result @ [e]) = Inr out"
    and e: "content_id e = ids ! i" "filed_from parse resp e"
    by blast
  from Cons.IH[OF step] Cons.prems(2)
  obtain new where new: "out = (result @ [e]) @ new" "length new = length rest"
    "\<forall>j<length rest. content_id (new ! j) = ids ! (Suc i + j)
         \<and> filed_from parse (rest ! j) (new ! j)" by auto
  have "\<forall>j<length (resp # rest). content_id ((e # new) ! j) = ids ! (i + j)
          \<and> filed_from parse ((resp # rest) ! j) ((e # new) ! j)"
    using new(3) e by (auto simp: nth_Cons split: nat.splits)
  then show ?case using new(1,2) by (intro exI[of _ "e # new"]) simp
qed

lemma extract_loop_succeeds:
  assumes "\<forall>resp \<in> set resps. \<forall>d. resp = PDict d
             \<longrightarrow> (\<exists>n. py_int parse (dict_get d ''content_id'' PNone) = Inr n)
               \<and> (\<forall>f. dwell_value d = PFloat f \<longrightarrow> (\<exists>x. f = Finite x))"
  shows "\<exists>out. extract_loop parse ids i resps result = Inr out"
  using assms
proof (induction resps arbitrary: i result)
  case Nil
  then show ?case by simp
next
  case (Cons resp rest)
  have rest: "\<And>i result. \<exists>out. extract_loop parse ids i rest result = Inr out"
    using Cons by simp
  show ?case
  proof (cases resp)
    case (PDict d)
    then obtain n where n: "py_int parse (dict_get d ''content_id'' PNone) = Inr n"
      using Cons.prems by auto
    have "\<forall>f. dwell_value d = PFloat f \<longrightarrow> (\<exists>x. f = Finite x)"
      using Cons.prems PDict by simp
    from parse_single_succeeds[OF this, of parse]
    obtain c t where "parse_single_response_for_all parse d = Inr (c, t)" by blast
    then show ?thesis using PDict n rest by simp
  qed (use rest in simp_all)
qed

lemma add_missing_extends:
  "add_missing ns cs result = Inr out \<Longrightarrow> \<exists>extra. out = result @ extra"
proof (induction cs arbitrary: result)
  case Nil
  then show ?case by simp
next
  case (Cons c cs)
  then show ?case
    by (fastforce simp: Let_def split: sum.splits bool.splits)
qed

lemma add_missing_all_present:
  "\<forall>c \<in> set cs. \<exists>n. dict_get c ''id'' PNone = PInt n \<and> n \<in> set ns
     \<Longrightarrow> add_missing ns cs result = Inr result"
  by (induction cs arbitrary: result) (auto simp: Let_def)

lemma int_ids_of_ints:
  "map content_id es = map PInt ns \<Longrightarrow> int_ids parse es = Inr ns"
  by (induction es arbitrary: ns) auto

lemma all_ints_map: "\<forall>v \<in> set vs. \<exists>n. v = PInt n \<Longrightarrow> \<exists>ns. vs = map PInt ns"
proof (induction vs)
  case Nil
  then show ?case by simp
next
  case (Cons v vs)
  then obtain n ns where "v = PInt n" "vs = map PInt ns" by auto
  then have "v # vs = map PInt (n # ns)" by simp
  then show ?case by (rule exI)
qed

lemmas extract_defs = extract_all_content_responses_def dict_get_def dwell_value_def
  parse_single_response_for_all_def py_trunc_def

text \<open>A clicked response whose dwell time is an infinity (as \<open>json.loads\<close> reads
  \<open>1e999\<close>) makes the extraction raise \<open>OverflowError\<close>.\<close>

lemma extract_infinite_dwell_raises:
  "extract_all_content_responses demo_parse
     [PDict [(''content_id'', PInt 7), (''clicked'', PBool True),
             (''dwell_time'', PFloat PosInf)]]
     [[(''id'', PInt 7)]] = Inl OverflowError"
  by (simp add: extract_defs)

text \<open>
  Claim C9, as stated, fails for a response without \<open>content_id\<close>: the count check
  passes and the extraction raises \<open>TypeError\<close> (from \<open>int(None)\<close>) instead of matching
  by position.
\<close>

theorem extract_missing_content_id_raises:
  "validate_response_count [PDict [(''clicked'', PBool True)]]
       (int (length [[(''id'', PInt 7)]])) = Inr ()
   \<and> extract_all_content_responses demo_parse [PDict [(''clicked'', PBool True)]]
         [[(''id'', PInt 7)]] = Inl TypeError"
  by (simp add: validate_response_count_def extract_defs)

text \<open>
  Claim C9, amended: for a response list that passes the count check, whenever the
  extraction returns, its entry at position \<open>i\<close> carries the id of the \<open>i\<close>-th
  recommended content together with the \<open>clicked\<close> and \<open>dwell_time\<close> of the \<open>i\<close>-th
  response, whatever \<open>content_id\<close> that response holds; and it does return, with
  exactly one entry per content, when every dictionary response holds a \<open>content_id\<close>
  that \<open>int()\<close> accepts and a dwell time that is no NaN or infinity, and every content
  id is an int.
\<close>

theorem extract_matches_by_position:
  assumes "validate_response_count responses (int (length all_contents)) = Inr ()"
  shows "(\<forall>out. extract_all_content_responses parse responses all_contents = Inr out
            \<longrightarrow> length responses \<le> length out
              \<and> (\<forall>i<length responses.
                    content_id (out ! i) = dict_get (all_contents ! i) ''id'' PNone
                    \<and> filed_from parse (responses ! i) (out ! i)))
       \<and> ((\<forall>resp \<in> set responses. \<forall>d. resp = PDict d
               \<longrightarrow> (\<exists>n. py_int parse (dict_get d ''content_id'' PNone) = Inr n)
                 \<and> (\<forall>f. dwell_value d = PFloat f \<longrightarrow> (\<exists>x. f = Finite x)))
           \<and> (\<forall>c \<in> set all_contents. \<exists>n. dict_get c ''id'' PNone = PInt n)
           \<longrightarrow> (\<exists>out. extract_all_content_responses parse responses all_contents = Inr out
                  \<and> length out = length all_contents))"
proof -
  let ?ids = "map (\<lambda>content. dict_get content ''id'' PNone) all_contents"
  have len: "length responses = length all_contents"
    using assms by (simp add: validate_response_count_def Let_def split: if_splits)
  have partA: "length responses \<le> length out
              \<and> (\<forall>i<length responses.
                    content_id (out ! i) = dict_get (all_contents ! i) ''id'' PNone
                    \<and> filed_from parse (responses ! i) (out ! i))"
    if ex: "extract_all_content_responses parse responses all_contents = Inr out" for out
  proof -
    from ex
    obtain result ns where loop: "extract_loop parse ?ids 0 responses [] = Inr result"
      and miss: "add_missing ns all_contents result = Inr out"
      by (auto simp: extract_all_content_responses_def Let_def split: sum.splits)
    from extract_loop_positions[OF loop] len
    have res: "length result = length responses"
      "\<forall>j<length responses. content_id (result ! j) = ?ids ! j
          \<and> filed_from parse (responses ! j) (result ! j)" by auto
    from add_missing_extends[OF miss] obtain extra where out: "out = result @ extra" by blast
    have "length responses \<le> length out" using out res(1) by simp
    moreover have
      "\<forall>i<length responses. content_id (out ! i) = dict_get (all_contents ! i) ''id'' PNone
          \<and> filed_from parse (responses ! i) (out ! i)"
      using out res len by (simp add: nth_append)
    ultimately show ?thesis by blast
  qed
  have partB: "\<exists>out. extract_all_content_responses parse responses all_contents = Inr out
                  \<and> length out = length all_contents"
    if ok: "(\<forall>resp \<in> set responses. \<forall>d. resp = PDict d
               \<longrightarrow> (\<exists>n. py_int parse (dict_get d ''content_id'' PNone) = Inr n)
                 \<and> (\<forall>f. dwell_value d = PFloat f \<longrightarrow> (\<exists>x. f = Finite x)))
           \<and> (\<forall>c \<in> set all_contents. \<exists>n. dict_get c ''id'' PNone = PInt n)"
  proof -
    from ok obtain result where loop: "extract_loop parse ?ids 0 responses [] = Inr result"
      using extract_loop_succeeds[of responses parse ?ids 0 "[]"] by blast
    from extract_loop_positions[OF loop] len
    have res: "length result = length responses"
      "\<forall>j<length responses. content_id (result ! j) = ?ids ! j" by auto
    have ids: "map content_id result = ?ids"
      using res len by (auto intro!: nth_equalityI)
    obtain ns where ns: "?ids = map PInt ns"
    proof -
      have "\<forall>v \<in> set ?ids. \<exists>n. v = PInt n" using ok by auto
      then have "\<exists>ns. ?ids = map PInt ns" by (rule all_ints_map)
      then show ?thesis using that by blast
    qed
    have ints: "int_ids parse result = Inr ns"
      using int_ids_of_ints[of result ns parse] ids ns by simp
    have "\<forall>c \<in> set all_contents. \<exists>n. dict_get c ''id'' PNone = PInt n \<and> n \<in> set ns"
    proof
      fix c assume c: "c \<in> set all_contents"
      then have "dict_get c ''id'' PNone \<in> set (map PInt ns)" using ns[symmetric] by auto
      then show "\<exists>n. dict_get c ''id'' PNone = PInt n \<and> n \<in> set ns" by auto
    qed
    then have "add_missing ns all_contents result = Inr result"
      by (rule add_missing_all_present)
    then have "extract_all_content_responses parse responses all_contents = Inr result"
      using loop ints by (simp add: extract_all_content_responses_def)
    then show ?thesis
      using res(1) len by simp
  qed
  show ?thesis using partA partB by blast
qed

theorem extract_matches_by_position_witness:
  "validate_response_count
       [PDict [(''content_id'', PInt 42), (''clicked'', PBool True), (''dwell_time'', PInt 30)],
        PStr ''oops'']
       (int (length [[(''id'', PInt 7)], [(''id'', PInt 8)]])) = Inr ()
   \<and> (\<exists>out. extract_all_content_responses demo_parse
         [PDict [(''content_id'', PInt 42), (''clicked'', PBool True), (''dwell_time'', PInt 30)],
          PStr ''oops'']
         [[(''id'', PInt 7)], [(''id'', PInt 8)]] = Inr out
       \<and> out = [\<lparr>content_id = PInt 7, clicked = True, dwell_time = 30\<rparr>,
                \<lparr>content_id = PInt 8, clicked = False, dwell_time = 0\<rparr>]
       \<and> length out = 2 \<and> content_id (out ! 0) = PInt 7 \<and> content_id (out ! 1) = PInt 8
       \<and> clicked (out ! 0) = True \<and> dwell_time (out ! 0) = 30
       \<and> clicked (out ! 1) = False \<and> dwell_time (out ! 1) = 0)"
proof -
  let ?r0 = "[(''content_id'', PInt 42), (''clicked'', PBool True), (''dwell_time'', PInt 30)]"
  let ?rs = "[PDict ?r0, PStr ''oops'']"
  let ?cs = "[[(''id'', PInt 7)], [(''id'', PInt 8)]]"
  have v: "validate_response_count ?rs (int (length ?cs)) = Inr ()"
    by (simp add: validate_response_count_def)
  have ok: "(\<forall>resp \<in> set ?rs. \<forall>d. resp = PDict d
               \<longrightarrow> (\<exists>n. py_int demo_parse (dict_get d ''content_id'' PNone) = Inr n)
                 \<and> (\<forall>f. dwell_value d = PFloat f \<longrightarrow> (\<exists>x. f = Finite x)))
           \<and> (\<forall>c \<in> set ?cs. \<exists>n. dict_get c ''id'' PNone = PInt n)"
    by (simp add: dict_get_def dwell_value_def)
  have ev: "extract_all_content_responses demo_parse ?rs ?cs
      = Inr [\<lparr>content_id = PInt 7, clicked = True, dwell_time = 30\<rparr>,
             \<lparr>content_id = PInt 8, clicked = False, dwell_time = 0\<rparr>]"
    by (simp add: extract_defs)
  have p0: "parse_single_response_for_all demo_parse ?r0 = Inr (True, 30)"
    by (simp add: extract_defs)
  note inst = extract_matches_by_position [OF v, of demo_parse]
  from inst[THEN conjunct2, rule_format, OF ok]
  obtain out where out: "extract_all_content_responses demo_parse ?rs ?cs = Inr out"
    "length out = length ?cs" by (elim exE conjE)
  from inst[THEN conjunct1, rule_format, OF out(1)]
  have pos: "\<forall>i<length ?rs. content_id (out ! i) = dict_get (?cs ! i) ''id'' PNone
                \<and> filed_from demo_parse (?rs ! i) (out ! i)"
    by (elim conjE)
  have "content_id (out ! 0) = PInt 7 \<and> filed_from demo_parse (PDict ?r0) (out ! 0)"
    using pos[rule_format, of 0] by (simp add: dict_get_def)
  moreover have "content_id (out ! 1) = PInt 8 \<and> filed_from demo_parse (PStr ''oops'') (out ! 1)"
    using pos[rule_format, of 1] by (simp add: dict_get_def)
  ultimately have "content_id (out ! 0) = PInt 7" "content_id (out ! 1) = PInt 8"
    "clicked (out ! 0) = True" "dwell_time (out ! 0) = 30"
    "clicked (out ! 1) = False" "dwell_time (out ! 1) = 0"
    using p0 by (simp_all add: filed_from_def)
  then show ?thesis using v ev out(1,2) by simp
qed

end
